theory Spec2Isabelle
  imports Main "HOL-Library.Char_ord" "HOL-Library.List_Lexorder"
begin

section \<open>The environment of the migration subsystem\<close>

text \<open>
  The Go packages \<^verbatim>\<open>pkg/db\<close>, \<^verbatim>\<open>cmd\<close> and \<^verbatim>\<open>cmd/migrate\<close> talk to three things
  outside the repository: the operating system (environment variables, directories,
  files, the standard streams), the \<^verbatim>\<open>pgxpool\<close> driver, and the database behind it.
  Each of them is a parameter of the model, collected in the record \<open>sys\<close>; the Go
  functions are state transformers on a \<open>world\<close>, which holds the package variable
  \<^verbatim>\<open>DB\<close>, the state of the database and the sequence of effects performed so far.

  A Go \<^verbatim>\<open>error\<close> is modelled by its message: \<open>None\<close> is \<^verbatim>\<open>nil\<close>, and
  \<^verbatim>\<open>fmt.Errorf("... %s: %w", filename, err)\<close> is the concatenation of the texts.
\<close>

datatype pool = Pool string

record dirent =
  Name :: string
  IsDir :: bool

datatype effect =
    Print string
  | Log string
  | Scanln string
  | ReadDir string "string + dirent list"
  | ReadFile string "string + string"
  | PoolNew nat string "string + pool"
  | DBExec string "string list" "string option"
  | DBQuery string "string + (string + string) list"

text \<open>
  An effect is a call to the outside with what it returned. \<open>Print\<close> is a line on
  standard output, \<open>Log\<close> a line on standard error (the builtin \<^verbatim>\<open>println\<close> and the
  \<^verbatim>\<open>log\<close> package, without its time stamp), \<open>Scanln\<close> the word read from standard
  input; \<open>ReadDir\<close> and \<open>ReadFile\<close> are the calls of \<^verbatim>\<open>os.ReadDir\<close> and \<^verbatim>\<open>os.ReadFile\<close>;
  \<open>PoolNew t dsn\<close> is the call of \<^verbatim>\<open>pgxpool.New\<close> under a context that times out after
  \<open>t\<close> seconds; \<open>DBExec\<close> and \<open>DBQuery\<close> are the calls of \<^verbatim>\<open>DB.Exec\<close> and \<^verbatim>\<open>DB.Query\<close>.
\<close>

record 'd sys =
  getenv :: "string \<Rightarrow> string"
  readdir :: "string \<Rightarrow> string + dirent list"
  readfile :: "string \<Rightarrow> string + string"
  pool_new :: "string \<Rightarrow> string + pool"
  pgx_exec :: "string \<Rightarrow> string list \<Rightarrow> 'd \<Rightarrow> string option \<times> 'd"
  pgx_query :: "string \<Rightarrow> 'd \<Rightarrow> string + (string + string) list"

text \<open>
  \<open>pgx_exec sql args d\<close> is the error of executing \<open>sql\<close> on the database state \<open>d\<close>,
  and the state afterwards. \<open>pgx_query sql d\<close> is the error of the query or its rows;
  a row is \<open>Inr filename\<close>, or \<open>Inl err\<close> when \<^verbatim>\<open>rows.Scan\<close> into a Go string fails on it.
\<close>

record 'd world =
  DB :: "pool option"
  database :: 'd
  trace :: "effect list"

datatype outcome = Returned | Fatal | Serving

text \<open>
  How a \<^verbatim>\<open>main\<close> function ends: it returns, \<^verbatim>\<open>log.Fatalf\<close> terminates the process
  with status 1, or (the API server) it goes on to the repository and the HTTP layer.
\<close>

definition emit :: "effect \<Rightarrow> 'd world \<Rightarrow> 'd world" where
  "emit e w = w\<lparr>trace := trace w @ [e]\<rparr>"

definition Exec :: "'d sys \<Rightarrow> string \<Rightarrow> string list \<Rightarrow> 'd world \<Rightarrow> string option \<times> 'd world" where
  "Exec sys sql args w =
     (case pgx_exec sys sql args (database w) of
        (err, d) \<Rightarrow> (err, emit (DBExec sql args err) (w\<lparr>database := d\<rparr>)))"

definition Query :: "'d sys \<Rightarrow> string \<Rightarrow> 'd world \<Rightarrow> (string + (string + string) list) \<times> 'd world" where
  "Query sys sql w =
     (pgx_query sys sql (database w), emit (DBQuery sql (pgx_query sys sql (database w))) w)"

section \<open>Library functions of Go\<close>

definition HasSuffix :: "string \<Rightarrow> string \<Rightarrow> bool" where
  "HasSuffix s suffix =
     (length suffix \<le> length s \<and> drop (length s - length suffix) s = suffix)"

text \<open>
  \<^verbatim>\<open>filepath.Join\<close> on a directory name and an entry of that directory, with the
  separator of Unix: an entry name holds no separator and, ending in \<^verbatim>\<open>.sql\<close>, is
  neither \<^verbatim>\<open>.\<close> nor \<^verbatim>\<open>..\<close>, so cleaning the path changes nothing.
\<close>

definition Join :: "string \<Rightarrow> string \<Rightarrow> string" where
  "Join dir filename = dir @ ''/'' @ filename"

text \<open>
  \<^verbatim>\<open>strings.ToLower\<close> on the ASCII letters. The result is only compared with
  \<^verbatim>\<open>true\<close>, \<^verbatim>\<open>1\<close> and \<^verbatim>\<open>yes\<close>, and no character outside ASCII has one of their
  letters as its lower case.
\<close>

definition ToLower :: "string \<Rightarrow> string" where
  "ToLower s =
     map (\<lambda>c. if (65::nat) \<le> of_char c \<and> of_char c \<le> (90::nat)
              then char_of (of_char c + (32::nat)) else c) s"

section \<open>pkg/db: connection, migrations, seeds\<close>

subsection \<open>InitPostgres\<close>

definition InitPostgres :: "'d sys \<Rightarrow> 'd world \<Rightarrow> string option \<times> 'd world" where
  "InitPostgres sys w =
     (let dsn = getenv sys ''DATABASE_URL'';
          w1 = emit (Log (''Connecting to PostgreSQL with DSN: '' @ dsn)) w
      in if dsn = [] then (Some ''DATABASE_URL environment variable is not set'', w1)
         else
           let w2 = emit (PoolNew 10 dsn (pool_new sys dsn)) w1
           in case pool_new sys dsn of
                Inl err \<Rightarrow> (Some (''failed to connect to PostgreSQL: '' @ err), w2)
              | Inr p \<Rightarrow> (None, w2\<lparr>DB := Some p\<rparr>))"

subsection \<open>RunMigrations\<close>

definition createMigrationsTable :: string where
  "createMigrationsTable =
     [CHR 0x0A, CHR 0x09, CHR 0x09] @ ''CREATE TABLE IF NOT EXISTS migrations ('' @
     [CHR 0x0A, CHR 0x09, CHR 0x09, CHR 0x09] @ ''id SERIAL PRIMARY KEY,'' @
     [CHR 0x0A, CHR 0x09, CHR 0x09, CHR 0x09] @ ''filename VARCHAR(255) NOT NULL UNIQUE,'' @
     [CHR 0x0A, CHR 0x09, CHR 0x09, CHR 0x09] @ ''executed_at TIMESTAMP WITH TIME ZONE DEFAULT NOW()'' @
     [CHR 0x0A, CHR 0x09, CHR 0x09] @ '');'' @
     [CHR 0x0A, CHR 0x09]"

definition selectMigrations :: string where
  "selectMigrations = ''SELECT filename FROM migrations''"

definition insertMigration :: string where
  "insertMigration = ''INSERT INTO migrations (filename) VALUES ($1)''"

definition migrationDir :: string where
  "migrationDir = ''migrations''"

definition seedDir :: string where
  "seedDir = ''seeds''"

text \<open>The filter over the directory listing, then \<^verbatim>\<open>sort.Strings\<close>.\<close>

definition sqlFiles :: "dirent list \<Rightarrow> string list" where
  "sqlFiles files =
     sort (map Name (filter (\<lambda>file. \<not> IsDir file \<and> HasSuffix (Name file) ''.sql'') files))"

text \<open>
  The loop over \<^verbatim>\<open>rows.Next()\<close>, filling the Go map \<^verbatim>\<open>executedMigrations\<close>; a map to
  \<^verbatim>\<open>bool\<close> that only ever stores \<^verbatim>\<open>true\<close> is the set of its keys.
\<close>

fun scan_rows :: "(string + string) list \<Rightarrow> string set \<Rightarrow> string + string set" where
  "scan_rows [] executedMigrations = Inr executedMigrations"
| "scan_rows (Inl err # rows) executedMigrations =
     Inl (''failed to scan migration filename: '' @ err)"
| "scan_rows (Inr filename # rows) executedMigrations =
     scan_rows rows (insert filename executedMigrations)"

text \<open>The loop \<^verbatim>\<open>for _, filename := range sqlFiles\<close> of RunMigrations.\<close>

fun migrate_pending ::
  "'d sys \<Rightarrow> string set \<Rightarrow> string list \<Rightarrow> 'd world \<Rightarrow> string option \<times> 'd world" where
  "migrate_pending sys executedMigrations [] w = (None, w)"
| "migrate_pending sys executedMigrations (filename # rest) w =
     (if filename \<in> executedMigrations then
        migrate_pending sys executedMigrations rest
          (emit (Print (''Migration '' @ filename @ '' already executed, skipping'')) w)
      else
        let w1 = emit (Print (''Executing migration '' @ filename)) w;
            w2 = emit (ReadFile (Join migrationDir filename)
                         (readfile sys (Join migrationDir filename))) w1
        in case readfile sys (Join migrationDir filename) of
             Inl err \<Rightarrow>
               (Some (''failed to read migration file '' @ filename @ '': '' @ err), w2)
           | Inr content \<Rightarrow>
               (case Exec sys content [] w2 of
                  (Some err, w3) \<Rightarrow>
                    (Some (''failed to execute migration '' @ filename @ '': '' @ err), w3)
                | (None, w3) \<Rightarrow>
                    (case Exec sys insertMigration [filename] w3 of
                       (Some err, w4) \<Rightarrow>
                         (Some (''failed to record migration '' @ filename @ '': '' @ err), w4)
                     | (None, w4) \<Rightarrow>
                         migrate_pending sys executedMigrations rest
                           (emit (Print (''Migration '' @ filename @ '' executed successfully'')) w4))))"

definition RunMigrations :: "'d sys \<Rightarrow> 'd world \<Rightarrow> string option \<times> 'd world" where
  "RunMigrations sys w =
     (if DB w = None then (Some ''database not initialized'', w)
      else
        case Exec sys createMigrationsTable [] w of
          (Some err, w1) \<Rightarrow> (Some (''failed to create migrations table: '' @ err), w1)
        | (None, w1) \<Rightarrow>
            (let w2 = emit (ReadDir migrationDir (readdir sys migrationDir)) w1
             in (case readdir sys migrationDir of
                   Inl err \<Rightarrow> (Some (''failed to read migrations directory: '' @ err), w2)
                 | Inr files \<Rightarrow>
                     (case Query sys selectMigrations w2 of
                        (Inl err, w3) \<Rightarrow>
                          (Some (''failed to query executed migrations: '' @ err), w3)
                      | (Inr rows, w3) \<Rightarrow>
                          (case scan_rows rows {} of
                             Inl err \<Rightarrow> (Some err, w3)
                           | Inr executedMigrations \<Rightarrow>
                               migrate_pending sys executedMigrations (sqlFiles files) w3)))))"

subsection \<open>SeedDatabase\<close>

fun seed_files :: "'d sys \<Rightarrow> string list \<Rightarrow> 'd world \<Rightarrow> string option \<times> 'd world" where
  "seed_files sys [] w = (None, w)"
| "seed_files sys (filename # rest) w =
     (let w1 = emit (Print (''Executing seed file '' @ filename)) w;
          w2 = emit (ReadFile (Join seedDir filename)
                       (readfile sys (Join seedDir filename))) w1
      in case readfile sys (Join seedDir filename) of
           Inl err \<Rightarrow> (Some (''failed to read seed file '' @ filename @ '': '' @ err), w2)
         | Inr content \<Rightarrow>
             (case Exec sys content [] w2 of
                (Some err, w3) \<Rightarrow>
                  (Some (''failed to execute seed file '' @ filename @ '': '' @ err), w3)
              | (None, w3) \<Rightarrow>
                  seed_files sys rest
                    (emit (Print (''Seed file '' @ filename @ '' executed successfully'')) w3)))"

definition SeedDatabase :: "'d sys \<Rightarrow> 'd world \<Rightarrow> string option \<times> 'd world" where
  "SeedDatabase sys w =
     (if DB w = None then (Some ''database not initialized'', w)
      else
        let w1 = emit (ReadDir seedDir (readdir sys seedDir)) w
        in case readdir sys seedDir of
             Inl err \<Rightarrow> (Some (''failed to read seeds directory: '' @ err), w1)
           | Inr files \<Rightarrow> seed_files sys (sqlFiles files) w1)"

section \<open>cmd/migrate: the migration tool\<close>

definition println_all :: "string list \<Rightarrow> 'd world \<Rightarrow> 'd world" where
  "println_all lines w = fold (\<lambda>line. emit (Print line)) lines w"

definition showHelp :: "'d world \<Rightarrow> 'd world" where
  "showHelp w =
     println_all
       [''Database Migration Tool'',
        ''Usage: go run cmd/migrate/main.go [OPTIONS]'',
        [],
        ''Options:'',
        ''  -up     Run all pending migrations'',
        ''  -down   Rollback the last migration (not implemented yet)'',
        ''  -force  Force run all migrations (dangerous!)'',
        ''  -help   Show this help message'',
        [],
        ''Examples:'',
        ''  go run cmd/migrate/main.go -up'',
        ''  go run cmd/migrate/main.go -down'',
        ''  go run cmd/migrate/main.go -help'',
        [],
        ''Environment Variables:'',
        ''  DATABASE_URL - PostgreSQL connection string''] w"

text \<open>The two signs of the tool's messages, as their UTF-8 bytes.\<close>

definition warning_sign :: string where
  "warning_sign = [CHR 0xE2, CHR 0x9A, CHR 0xA0, CHR 0xEF, CHR 0xB8, CHR 0x8F]"

definition check_mark :: string where
  "check_mark = [CHR 0xE2, CHR 0x9C, CHR 0x85]"

definition not_implemented :: string where
  "not_implemented = warning_sign @ ''  Rollback functionality not implemented yet.''"

definition runMigrationsDown :: "'d world \<Rightarrow> 'd world" where
  "runMigrationsDown w =
     println_all
       [not_implemented,
        ''This would rollback the last migration.'',
        ''For now, you can manually rollback by:'',
        ''1. Connecting to your database'',
        ''2. Running the reverse SQL commands'',
        ''3. Removing the entry from the migrations table''] w"

text \<open>
  \<open>response\<close> is what \<^verbatim>\<open>fmt.Scanln(&response)\<close> stores: the first word of the line
  the operator types, or the empty string when there is none.
\<close>

definition runMigrationsUp :: "'d sys \<Rightarrow> string \<Rightarrow> bool \<Rightarrow> 'd world \<Rightarrow> outcome \<times> 'd world" where
  "runMigrationsUp sys response force w =
     (let w1 = emit (Print ''Running migrations...'') w;
          w2 = (if force then
                  emit (Scanln response)
                    (println_all
                       [warning_sign @ ''  FORCE MODE: This will run all migrations regardless of history!'',
                        ''Are you sure? This could cause data loss. (y/N): ''] w1)
                else w1)
      in if force \<and> response \<noteq> ''y'' \<and> response \<noteq> ''Y'' then
           (Returned, emit (Print ''Migration cancelled.'') w2)
         else
           (case RunMigrations sys w2 of
              (Some err, w3) \<Rightarrow> (Fatal, emit (Log (''Failed to run migrations: '' @ err)) w3)
            | (None, w3) \<Rightarrow>
                (Returned, emit (Print (check_mark @ '' Migrations completed successfully!'')) w3)))"

text \<open>
  \<^verbatim>\<open>main\<close> of \<^verbatim>\<open>cmd/migrate\<close>, after \<^verbatim>\<open>flag.Parse()\<close>: \<open>up\<close>, \<open>down\<close>, \<open>force\<close> and
  \<open>help\<close> are the values of the four flags.
\<close>

definition migrate_main ::
  "'d sys \<Rightarrow> string \<Rightarrow> bool \<Rightarrow> bool \<Rightarrow> bool \<Rightarrow> bool \<Rightarrow> 'd world \<Rightarrow> outcome \<times> 'd world" where
  "migrate_main sys response up down force help w =
     (if help then (Returned, showHelp w)
      else
        (case InitPostgres sys w of
           (Some err, w1) \<Rightarrow> (Fatal, emit (Log (''Failed to initialize database: '' @ err)) w1)
         | (None, w1) \<Rightarrow>
             (if up then runMigrationsUp sys response force w1
              else if down then (Returned, runMigrationsDown w1)
              else
                (Returned,
                 showHelp
                   (emit (Print ''No action specified. Use -help for usage information.'') w1)))))"

section \<open>cmd: the API server's start\<close>

text \<open>
  \<^verbatim>\<open>main\<close> of \<^verbatim>\<open>cmd\<close> up to the point where it hands over to the repository and the
  HTTP router. \<open>loadEnv\<close> is the error that \<^verbatim>\<open>env.LoadEnv(".env")\<close> returned, and
  \<open>getenv\<close> is the environment as that call left it.
\<close>

definition auto_migration_disabled :: string where
  "auto_migration_disabled =
     ''Auto-migration disabled. Use '' @ [CHR 0x27] @ ''go run cmd/migrate/main.go -up'' @
     [CHR 0x27] @ '' to run migrations manually.''"

definition main :: "'d sys \<Rightarrow> string option \<Rightarrow> 'd world \<Rightarrow> outcome \<times> 'd world" where
  "main sys loadEnv w =
     (let w0 = (case loadEnv of
                  Some err \<Rightarrow> emit (Log (''Warning: Failed to load .env file: '' @ err)) w
                | None \<Rightarrow> w)
      in (case InitPostgres sys w0 of
            (Some err, w1) \<Rightarrow> (Fatal, emit (Log (''Failed to initialize database: '' @ err)) w1)
          | (None, w1) \<Rightarrow>
              (let autoMigrate = ToLower (getenv sys ''AUTO_MIGRATE'');
                   migrated =
                     (if autoMigrate = ''true'' \<or> autoMigrate = ''1'' \<or> autoMigrate = ''yes'' then
                        RunMigrations sys
                          (emit (Log ''Auto-migration enabled, running migrations...'') w1)
                      else
                        (None, emit (Log auto_migration_disabled) w1))
               in (case migrated of
                     (Some err, w2) \<Rightarrow> (Fatal, emit (Log (''Failed to run migrations: '' @ err)) w2)
                   | (None, w2) \<Rightarrow>
                       (case SeedDatabase sys w2 of
                          (Some err, w3) \<Rightarrow>
                            (Serving, emit (Log (''Warning: Failed to seed database: '' @ err)) w3)
                        | (None, w3) \<Rightarrow> (Serving, w3))))))"

section \<open>A reference database\<close>

text \<open>
  The database as the three statements of RunMigrations see it. \<open>migrations\<close> is the
  tracker table, absent or the \<^verbatim>\<open>filename\<close> column of its rows in insertion order;
  \<open>applied\<close> stands for the rest of the schema and data. The statements of a change-set
  or seed file are interpreted by the parameter \<open>script\<close>, which may fail, and may
  read and write the tracker table like any other table.
  \<^item> \<^verbatim>\<open>CREATE TABLE IF NOT EXISTS\<close> creates the empty table when it is absent;
  \<^item> \<^verbatim>\<open>INSERT INTO migrations\<close> fails when the table is absent or, the column being
    \<^verbatim>\<open>UNIQUE\<close>, when the name is already there;
  \<^item> \<^verbatim>\<open>SELECT filename FROM migrations\<close> fails when the table is absent.
\<close>

record database =
  migrations :: "string list option"
  applied :: "string list"

definition create_tracker :: "database \<Rightarrow> database" where
  "create_tracker d = (case migrations d of None \<Rightarrow> d\<lparr>migrations := Some []\<rparr> | Some rows \<Rightarrow> d)"

definition postgres_exec ::
  "(string \<Rightarrow> database \<Rightarrow> string + database) \<Rightarrow>
   string \<Rightarrow> string list \<Rightarrow> database \<Rightarrow> string option \<times> database" where
  "postgres_exec script sql args d =
     (if sql = createMigrationsTable \<and> args = [] then (None, create_tracker d)
      else if sql = insertMigration then
        (case args of
           [filename] \<Rightarrow>
             (case migrations d of
                None \<Rightarrow> (Some ''relation migrations does not exist'', d)
              | Some rows \<Rightarrow>
                  (if filename \<in> set rows
                   then (Some ''duplicate key value violates unique constraint'', d)
                   else (None, d\<lparr>migrations := Some (rows @ [filename])\<rparr>)))
         | _ \<Rightarrow> (Some ''wrong number of parameters'', d))
      else
        (case script sql d of
           Inl err \<Rightarrow> (Some err, d)
         | Inr d' \<Rightarrow> (None, d')))"

definition postgres_query :: "string \<Rightarrow> database \<Rightarrow> string + (string + string) list" where
  "postgres_query sql d =
     (if sql = selectMigrations then
        (case migrations d of
           None \<Rightarrow> Inl ''relation migrations does not exist''
         | Some rows \<Rightarrow> Inr (map Inr rows))
      else Inl ''unknown query'')"

text \<open>
  Three interpretations of scripts. \<open>plain_sql invalid\<close> rejects the texts in \<open>invalid\<close>
  and applies every other text without touching the tracker table; \<open>dropping_sql\<close>
  also knows the statement that drops the tracker table, and \<open>deleting_sql\<close> the
  statement that deletes its rows.
\<close>

definition plain_sql :: "string set \<Rightarrow> string \<Rightarrow> database \<Rightarrow> string + database" where
  "plain_sql invalid sql d =
     (if sql \<in> invalid then Inl ''syntax error''
      else Inr (d\<lparr>applied := applied d @ [sql]\<rparr>))"

definition dropping_sql :: "string \<Rightarrow> database \<Rightarrow> string + database" where
  "dropping_sql sql d =
     (if sql = ''DROP TABLE migrations;''
      then Inr (d\<lparr>migrations := None, applied := applied d @ [sql]\<rparr>)
      else Inr (d\<lparr>applied := applied d @ [sql]\<rparr>))"


section \<open>Observations on a run\<close>

text \<open>
  The effects of a call are the part of the trace it added. An effect has failed when
  the call returned an error; a database call is a call to the driver. \<open>files_read\<close>
  lists the files read successfully with their contents, \<open>scripts_run\<close> the statements
  sent to \<^verbatim>\<open>DB.Exec\<close> without arguments, both in the order of the trace.
\<close>

definition effects_since :: "'d world \<Rightarrow> 'd world \<Rightarrow> effect list" where
  "effects_since w w' = drop (length (trace w)) (trace w')"

fun failed :: "effect \<Rightarrow> bool" where
  "failed (ReadDir dir (Inl err)) = True"
| "failed (ReadFile path (Inl err)) = True"
| "failed (PoolNew t dsn (Inl err)) = True"
| "failed (DBExec sql args (Some err)) = True"
| "failed (DBQuery sql (Inl err)) = True"
| "failed e = False"

fun db_call :: "effect \<Rightarrow> bool" where
  "db_call (PoolNew t dsn res) = True"
| "db_call (DBExec sql args err) = True"
| "db_call (DBQuery sql res) = True"
| "db_call e = False"

fun file_read :: "effect \<Rightarrow> (string \<times> string) list" where
  "file_read (ReadFile path (Inr content)) = [(path, content)]"
| "file_read e = []"

definition files_read :: "effect list \<Rightarrow> (string \<times> string) list" where
  "files_read es = concat (map file_read es)"

fun script_run :: "effect \<Rightarrow> string list" where
  "script_run (DBExec sql [] err) = [sql]"
| "script_run e = []"

definition scripts_run :: "effect list \<Rightarrow> string list" where
  "scripts_run es = concat (map script_run es)"

text \<open>
  The effects of RunMigrations come in blocks: those before the loop, those of a
  change-set that is skipped, and those of a change-set that is applied and recorded.
\<close>

definition bootstrap_events ::
  "string + dirent list \<Rightarrow> string + (string + string) list \<Rightarrow> effect list" where
  "bootstrap_events files rows =
     [DBExec createMigrationsTable [] None,
      ReadDir migrationDir files,
      DBQuery selectMigrations rows]"

definition skip_events :: "string \<Rightarrow> effect list" where
  "skip_events f = [Print (''Migration '' @ f @ '' already executed, skipping'')]"

definition applied_events :: "string \<Rightarrow> string \<Rightarrow> effect list" where
  "applied_events f c =
     [Print (''Executing migration '' @ f),
      ReadFile (Join migrationDir f) (Inr c),
      DBExec c [] None,
      DBExec insertMigration [f] None,
      Print (''Migration '' @ f @ '' executed successfully'')]"

text \<open>The effects of a seed file that is executed.\<close>

definition seeded_events :: "string \<Rightarrow> string \<Rightarrow> effect list" where
  "seeded_events f c =
     [Print (''Executing seed file '' @ f),
      ReadFile (Join seedDir f) (Inr c),
      DBExec c [] None,
      Print (''Seed file '' @ f @ '' executed successfully'')]"

section \<open>An example installation\<close>

text \<open>
  A migrations directory whose listing is out of order and holds a file of another
  suffix and a directory named like a change-set; one seed file; the reference database.
  \<open>demo_sys script b\<close> interprets scripts by \<open>script\<close> and has \<open>b\<close> as the text of the
  second change-set.
\<close>

definition demo_listing :: "dirent list" where
  "demo_listing =
     [\<lparr>Name = ''003_c.sql'', IsDir = False\<rparr>,
      \<lparr>Name = ''README.md'', IsDir = False\<rparr>,
      \<lparr>Name = ''001_a.sql'', IsDir = False\<rparr>,
      \<lparr>Name = ''old.sql'', IsDir = True\<rparr>,
      \<lparr>Name = ''002_b.sql'', IsDir = False\<rparr>]"

definition demo_sys :: "(string \<Rightarrow> database \<Rightarrow> string + database) \<Rightarrow> string \<Rightarrow> database sys" where
  "demo_sys script b =
     \<lparr>getenv = (\<lambda>key. if key = ''DATABASE_URL'' then ''postgres://localhost:5432/userdb''
                      else if key = ''AUTO_MIGRATE'' then ''True'' else []),
      readdir = (\<lambda>dir. if dir = ''migrations'' then Inr demo_listing
                       else if dir = ''seeds'' then Inr [\<lparr>Name = ''users.sql'', IsDir = False\<rparr>]
                       else Inl ''no such file or directory''),
      readfile = (\<lambda>path. if path = ''migrations/001_a.sql'' then Inr ''CREATE TABLE a ();''
                         else if path = ''migrations/002_b.sql'' then Inr b
                         else if path = ''migrations/003_c.sql'' then Inr ''CREATE TABLE c ();''
                         else if path = ''seeds/users.sql'' then Inr ''INSERT INTO a DEFAULT VALUES;''
                         else Inl ''no such file or directory''),
      pool_new = (\<lambda>dsn. Inr (Pool dsn)),
      pgx_exec = postgres_exec script,
      pgx_query = postgres_query\<rparr>"

definition demo_world :: "string list option \<Rightarrow> database world" where
  "demo_world rows =
     \<lparr>DB = Some (Pool ''postgres://localhost:5432/userdb''),
      database = \<lparr>migrations = rows, applied = []\<rparr>,
      trace = []\<rparr>"

text \<open>
  The same installation with no database listening at the address of the connection
  string. \<^verbatim>\<open>pgxpool.New\<close> of pgx v5, the driver the package imports, parses the
  connection string and returns the pool; it opens connections afterwards, in the
  background and on first use. So it returns a pool here as well, and every call on
  that pool fails.
\<close>

definition connection_refused :: string where
  "connection_refused = ''dial tcp 127.0.0.1:5432: connect: connection refused''"

definition unreachable_sys :: "database sys" where
  "unreachable_sys =
     (demo_sys (plain_sql {}) ''CREATE TABLE b ();'')
       \<lparr>pgx_exec := \<lambda>sql args d. (Some connection_refused, d),
        pgx_query := \<lambda>sql d. Inl connection_refused\<rparr>"

section \<open>Basic facts about the trace\<close>

lemma emit_simps [simp]:
  "trace (emit e w) = trace w @ [e]" "database (emit e w) = database w" "DB (emit e w) = DB w"
  by (simp_all add: emit_def)

lemma println_all_eq: "println_all ls w = w\<lparr>trace := trace w @ map Print ls\<rparr>"
  by (induction ls arbitrary: w) (simp_all add: println_all_def emit_def)

lemma effects_since_self [simp]: "effects_since w w = []"
  by (simp add: effects_since_def)

lemma effects_since_app [simp]: "effects_since w (v\<lparr>trace := trace w @ es\<rparr>) = es"
  by (simp add: effects_since_def)

section \<open>The uninitialized pool\<close>

text \<open>
  Claim C10. When the package variable \<^verbatim>\<open>DB\<close> is nil, RunMigrations and SeedDatabase
  both return the error "database not initialized" and leave the world as it was: the
  trace is unchanged, so no directory was listed, no file read and no database call made.
\<close>

theorem uninitialized_pool_rejected:
  "DB w = None \<Longrightarrow>
     RunMigrations sys w = (Some ''database not initialized'', w) \<and>
     SeedDatabase sys w = (Some ''database not initialized'', w)"
  by (simp add: RunMigrations_def SeedDatabase_def)

theorem uninitialized_pool_rejected_witness:
  "RunMigrations (demo_sys (plain_sql {}) ''CREATE TABLE b ();'') ((demo_world None)\<lparr>DB := None\<rparr>)
     = (Some ''database not initialized'', (demo_world None)\<lparr>DB := None\<rparr>) \<and>
   SeedDatabase (demo_sys (plain_sql {}) ''CREATE TABLE b ();'') ((demo_world None)\<lparr>DB := None\<rparr>)
     = (Some ''database not initialized'', (demo_world None)\<lparr>DB := None\<rparr>)"
  using uninitialized_pool_rejected [of "(demo_world None)\<lparr>DB := None\<rparr>"]
  by simp

section \<open>Rollback\<close>

text \<open>
  Claim C8. The rollback operation \<^verbatim>\<open>runMigrationsDown\<close> prints that rollback is not
  implemented, followed by the manual instructions, and does nothing else: the world
  changes only by these six lines on standard output, so the database, tracker table
  included, is as before and no call to the driver is among its effects. The tool
  reaches it on \<^verbatim>\<open>-down\<close> (without \<^verbatim>\<open>-up\<close> and \<^verbatim>\<open>-help\<close>) once the pool is set up.
\<close>

theorem rollback_not_implemented:
  "runMigrationsDown w =
     w\<lparr>trace := trace w @
       map Print
         [not_implemented,
          ''This would rollback the last migration.'',
          ''For now, you can manually rollback by:'',
          ''1. Connecting to your database'',
          ''2. Running the reverse SQL commands'',
          ''3. Removing the entry from the migrations table'']\<rparr> \<and>
   filter db_call (effects_since w (runMigrationsDown w)) = [] \<and>
   migrate_main sys response False True force False w =
     (case InitPostgres sys w of
        (Some err, w1) \<Rightarrow> (Fatal, emit (Log (''Failed to initialize database: '' @ err)) w1)
      | (None, w1) \<Rightarrow> (Returned, runMigrationsDown w1))"
  by (simp add: runMigrationsDown_def println_all_eq migrate_main_def
        split: prod.split option.split)

section \<open>Connection establishment\<close>

text \<open>
  The two ways in which InitPostgres returns an error. When \<^verbatim>\<open>DATABASE_URL\<close> is empty
  it has only written its log line: \<^verbatim>\<open>pgxpool.New\<close> was not called and \<^verbatim>\<open>DB\<close> is as
  before. With a connection string, \<^verbatim>\<open>pgxpool.New\<close> is called under a context of ten
  seconds, and an error it returns is returned wrapped, again without setting \<^verbatim>\<open>DB\<close>.
  InitPostgres makes no other call: whether it fails on a connection string is for
  \<^verbatim>\<open>pgxpool.New\<close> alone to say.
\<close>

lemma InitPostgres_error_paths:
  "(getenv sys ''DATABASE_URL'' = [] \<longrightarrow>
      InitPostgres sys w =
        (Some ''DATABASE_URL environment variable is not set'',
         w\<lparr>trace := trace w @ [Log ''Connecting to PostgreSQL with DSN: '']\<rparr>)) \<and>
   (getenv sys ''DATABASE_URL'' \<noteq> [] \<longrightarrow> pool_new sys (getenv sys ''DATABASE_URL'') = Inl err \<longrightarrow>
      InitPostgres sys w =
        (Some (''failed to connect to PostgreSQL: '' @ err),
         w\<lparr>trace := trace w @
            [Log (''Connecting to PostgreSQL with DSN: '' @ getenv sys ''DATABASE_URL''),
             PoolNew 10 (getenv sys ''DATABASE_URL'') (Inl err)]\<rparr>))"
  by (simp add: InitPostgres_def emit_def Let_def)

text \<open>
  Claim C9, at the input where the code departs from it. The connection string is well
  formed and no database is listening at its address. InitPostgres logs the string,
  calls \<^verbatim>\<open>pgxpool.New\<close>, which returns a pool without having connected, and returns
  no error with \<^verbatim>\<open>DB\<close> set: it neither pings the database nor acquires a connection,
  so the context of ten seconds never runs out on anything. That the database is
  unreachable shows only in the next call on the pool, here the first statement of
  RunMigrations.
\<close>

theorem InitPostgres_accepts_unreachable_database:
  "InitPostgres unreachable_sys
       \<lparr>DB = None, database = \<lparr>migrations = None, applied = []\<rparr>, trace = []\<rparr> =
     (None,
      \<lparr>DB = Some (Pool ''postgres://localhost:5432/userdb''),
       database = \<lparr>migrations = None, applied = []\<rparr>,
       trace = [Log ''Connecting to PostgreSQL with DSN: postgres://localhost:5432/userdb'',
                PoolNew 10 ''postgres://localhost:5432/userdb''
                  (Inr (Pool ''postgres://localhost:5432/userdb''))]\<rparr>) \<and>
   fst (RunMigrations unreachable_sys
          (snd (InitPostgres unreachable_sys
                  \<lparr>DB = None, database = \<lparr>migrations = None, applied = []\<rparr>, trace = []\<rparr>))) =
     Some (''failed to create migrations table: '' @ connection_refused)"
  by (simp add: InitPostgres_def unreachable_sys_def demo_sys_def Let_def emit_def
        RunMigrations_def Exec_def)

section \<open>The loop of RunMigrations, case by case\<close>

text \<open>
  One round of the loop either skips the file, fails in one of three places, or applies
  and records the file and goes on. The rule below names the five cases with the
  effects of each; the lemmas after it follow the loop by induction on the list of files.
\<close>

lemma migrate_pending_Cons_cases [consumes 1, case_names skip read_fail exec_fail record_fail applied]:
  assumes "migrate_pending sys ex (f # rest) w = (r, w')"
  obtains
    "f \<in> ex"
    "migrate_pending sys ex rest (w\<lparr>trace := trace w @ skip_events f\<rparr>) = (r, w')"
  | err where "f \<notin> ex" "readfile sys (Join migrationDir f) = Inl err"
      "r = Some (''failed to read migration file '' @ f @ '': '' @ err)"
      "w' = w\<lparr>trace := trace w @
          [Print (''Executing migration '' @ f), ReadFile (Join migrationDir f) (Inl err)]\<rparr>"
  | c err d where "f \<notin> ex" "readfile sys (Join migrationDir f) = Inr c"
      "pgx_exec sys c [] (database w) = (Some err, d)"
      "r = Some (''failed to execute migration '' @ f @ '': '' @ err)"
      "w' = w\<lparr>database := d, trace := trace w @
          [Print (''Executing migration '' @ f), ReadFile (Join migrationDir f) (Inr c),
           DBExec c [] (Some err)]\<rparr>"
  | c d err d' where "f \<notin> ex" "readfile sys (Join migrationDir f) = Inr c"
      "pgx_exec sys c [] (database w) = (None, d)"
      "pgx_exec sys insertMigration [f] d = (Some err, d')"
      "r = Some (''failed to record migration '' @ f @ '': '' @ err)"
      "w' = w\<lparr>database := d', trace := trace w @
          [Print (''Executing migration '' @ f), ReadFile (Join migrationDir f) (Inr c),
           DBExec c [] None, DBExec insertMigration [f] (Some err)]\<rparr>"
  | c d d' where "f \<notin> ex" "readfile sys (Join migrationDir f) = Inr c"
      "pgx_exec sys c [] (database w) = (None, d)"
      "pgx_exec sys insertMigration [f] d = (None, d')"
      "migrate_pending sys ex rest (w\<lparr>database := d', trace := trace w @ applied_events f c\<rparr>) = (r, w')"
  using assms
  by (auto simp: Exec_def emit_def Let_def skip_events_def applied_events_def
           split: if_splits sum.splits prod.splits option.splits)


lemma migrate_pending_grows:
  "migrate_pending sys ex files w = (r, w') \<Longrightarrow> \<exists>new. trace w' = trace w @ new"
proof (induction files arbitrary: w)
  case Nil
  then show ?case by simp
next
  case (Cons f rest)
  from Cons.prems show ?case
  proof (cases rule: migrate_pending_Cons_cases)
    case skip
    from Cons.IH [OF skip(2)] show ?thesis by auto
  next
    case (applied c d d')
    from Cons.IH [OF applied(5)] show ?thesis by auto
  qed auto
qed

lemma effects_since_step:
  assumes "migrate_pending sys ex files (v\<lparr>trace := trace w @ es\<rparr>) = (r, w')"
  shows "effects_since w w' = es @ effects_since (v\<lparr>trace := trace w @ es\<rparr>) w'"
proof -
  from migrate_pending_grows [OF assms] obtain new where "trace w' = (trace w @ es) @ new"
    by auto
  then show ?thesis by (simp add: effects_since_def)
qed

lemma split_after_prefix:
  "es @ new = pre @ e # post \<Longrightarrow> \<forall>x\<in>set es. \<not> P x \<Longrightarrow> P e \<Longrightarrow>
     \<exists>pre'. pre = es @ pre' \<and> new = pre' @ e # post"
proof (induction es arbitrary: pre)
  case Nil
  then show ?case by simp
next
  case (Cons x es)
  then show ?case by (cases pre) auto
qed

lemma not_failed_events [simp]:
  "\<forall>x\<in>set (skip_events f). \<not> failed x" "\<forall>x\<in>set (applied_events f c). \<not> failed x"
  by (simp_all add: skip_events_def applied_events_def)

lemma migrate_pending_fail_fast:
  "migrate_pending sys ex files w = (r, w') \<Longrightarrow>
     effects_since w w' = pre @ e # post \<Longrightarrow> failed e \<Longrightarrow> post = [] \<and> r \<noteq> None"
proof (induction files arbitrary: w pre)
  case Nil
  then show ?case by simp
next
  case (Cons f rest)
  from Cons.prems(1) show ?case
  proof (cases rule: migrate_pending_Cons_cases)
    case skip
    from effects_since_step [OF skip(2)] Cons.prems(2)
    have "skip_events f @ effects_since (w\<lparr>trace := trace w @ skip_events f\<rparr>) w' = pre @ e # post"
      by simp
    from split_after_prefix [OF this not_failed_events(1) Cons.prems(3)]
    obtain pre' where "effects_since (w\<lparr>trace := trace w @ skip_events f\<rparr>) w' = pre' @ e # post"
      by auto
    from Cons.IH [OF skip(2) this Cons.prems(3)] show ?thesis .
  next
    case (applied c d d')
    from effects_since_step [OF applied(5)] Cons.prems(2)
    have "applied_events f c @
            effects_since (w\<lparr>database := d', trace := trace w @ applied_events f c\<rparr>) w' = pre @ e # post"
      by simp
    from split_after_prefix [OF this not_failed_events(2) Cons.prems(3)]
    obtain pre' where
      "effects_since (w\<lparr>database := d', trace := trace w @ applied_events f c\<rparr>) w' = pre' @ e # post"
      by auto
    from Cons.IH [OF applied(5) this Cons.prems(3)] show ?thesis .
  next
    case (read_fail err)
    with Cons.prems(2,3) show ?thesis by (auto simp: append_eq_Cons_conv Cons_eq_append_conv)
  next
    case (exec_fail c err d)
    with Cons.prems(2,3) show ?thesis by (auto simp: append_eq_Cons_conv Cons_eq_append_conv)
  next
    case (record_fail c d err d')
    with Cons.prems(2,3) show ?thesis by (auto simp: append_eq_Cons_conv Cons_eq_append_conv)
  qed
qed


lemma Join_inject [simp]: "Join dir f = Join dir g \<longleftrightarrow> f = g"
  by (simp add: Join_def)

lemma migrate_pending_names_failure:
  "migrate_pending sys ex files w = (r, w') \<Longrightarrow>
     effects_since w w' = pre @ ReadFile (Join migrationDir f) (Inr c) # DBExec sql args (Some err) # post \<Longrightarrow>
     r = Some (''failed to execute migration '' @ f @ '': '' @ err)"
proof (induction files arbitrary: w pre)
  case Nil
  then show ?case by simp
next
  case (Cons g rest)
  let ?win = "ReadFile (Join migrationDir f) (Inr c) # DBExec sql args (Some err) # post"
  from Cons.prems(1) show ?case
  proof (cases rule: migrate_pending_Cons_cases)
    case skip
    from effects_since_step [OF skip(2)] Cons.prems(2)
    have "skip_events g @ effects_since (w\<lparr>trace := trace w @ skip_events g\<rparr>) w' = pre @ ?win"
      by simp
    then obtain pre' where "effects_since (w\<lparr>trace := trace w @ skip_events g\<rparr>) w' = pre' @ ?win"
      by (auto simp: skip_events_def Cons_eq_append_conv)
    from Cons.IH [OF skip(2) this] show ?thesis .
  next
    case (applied c' d d')
    from effects_since_step [OF applied(5)] Cons.prems(2)
    have "applied_events g c' @
            effects_since (w\<lparr>database := d', trace := trace w @ applied_events g c'\<rparr>) w' = pre @ ?win"
      by simp
    then obtain pre' where
      "effects_since (w\<lparr>database := d', trace := trace w @ applied_events g c'\<rparr>) w' = pre' @ ?win"
      by (auto simp: applied_events_def Cons_eq_append_conv)
    from Cons.IH [OF applied(5) this] show ?thesis .
  next
    case (read_fail err')
    with Cons.prems(2) show ?thesis by (auto simp: Cons_eq_append_conv)
  next
    case (exec_fail c' err' d)
    with Cons.prems(2) show ?thesis by (auto simp: Cons_eq_append_conv)
  next
    case (record_fail c' d err' d')
    with Cons.prems(2) show ?thesis by (auto simp: Cons_eq_append_conv)
  qed
qed

lemma migrate_pending_record_after_exec:
  "migrate_pending sys ex files w = (r, w') \<Longrightarrow>
     effects_since w w' = pre @ DBExec insertMigration [f] res # post \<Longrightarrow>
     \<exists>pre' c. pre = pre' @ [ReadFile (Join migrationDir f) (Inr c), DBExec c [] None]"
proof (induction files arbitrary: w pre)
  case Nil
  then show ?case by simp
next
  case (Cons g rest)
  let ?win = "DBExec insertMigration [f] res # post"
  from Cons.prems(1) show ?case
  proof (cases rule: migrate_pending_Cons_cases)
    case skip
    from effects_since_step [OF skip(2)] Cons.prems(2)
    have "skip_events g @ effects_since (w\<lparr>trace := trace w @ skip_events g\<rparr>) w' = pre @ ?win"
      by simp
    then obtain p where "pre = skip_events g @ p"
      "effects_since (w\<lparr>trace := trace w @ skip_events g\<rparr>) w' = p @ ?win"
      by (auto simp: skip_events_def Cons_eq_append_conv)
    with Cons.IH [OF skip(2) this(2)] show ?thesis by auto
  next
    case (applied c' d d')
    let ?w1 = "w\<lparr>database := d', trace := trace w @ applied_events g c'\<rparr>"
    from effects_since_step [OF applied(5)] Cons.prems(2)
    have "applied_events g c' @ effects_since ?w1 w' = pre @ ?win"
      by simp
    then consider
      (here) "pre = [Print (''Executing migration '' @ g), ReadFile (Join migrationDir g) (Inr c'), DBExec c' [] None]" "f = g"
    | (later) p where "pre = applied_events g c' @ p" "effects_since ?w1 w' = p @ ?win"
      by (auto simp: applied_events_def Cons_eq_append_conv)
    then show ?thesis
    proof cases
      case here
      then show ?thesis by simp
    next
      case (later p)
      with Cons.IH [OF applied(5) later(2)] show ?thesis by auto
    qed
  next
    case (read_fail err')
    with Cons.prems(2) show ?thesis by (auto simp: Cons_eq_append_conv)
  next
    case (exec_fail c' err' d)
    with Cons.prems(2) show ?thesis by (auto simp: Cons_eq_append_conv)
  next
    case (record_fail c' d err' d')
    with Cons.prems(2) show ?thesis by (auto simp: Cons_eq_append_conv)
  qed
qed

lemma migrate_pending_exec_then_record:
  "migrate_pending sys ex files w = (r, w') \<Longrightarrow>
     effects_since w w' = pre @ ReadFile (Join migrationDir f) (Inr c) # DBExec sql args None # post \<Longrightarrow>
     sql = c \<and> args = [] \<and> (\<exists>res post'. post = DBExec insertMigration [f] res # post')"
proof (induction files arbitrary: w pre)
  case Nil
  then show ?case by simp
next
  case (Cons g rest)
  let ?win = "ReadFile (Join migrationDir f) (Inr c) # DBExec sql args None # post"
  from Cons.prems(1) show ?case
  proof (cases rule: migrate_pending_Cons_cases)
    case skip
    from effects_since_step [OF skip(2)] Cons.prems(2)
    have "skip_events g @ effects_since (w\<lparr>trace := trace w @ skip_events g\<rparr>) w' = pre @ ?win"
      by simp
    then obtain p where
      "effects_since (w\<lparr>trace := trace w @ skip_events g\<rparr>) w' = p @ ?win"
      by (auto simp: skip_events_def Cons_eq_append_conv)
    with Cons.IH [OF skip(2) this] show ?thesis by auto
  next
    case (applied c' d d')
    let ?w1 = "w\<lparr>database := d', trace := trace w @ applied_events g c'\<rparr>"
    from effects_since_step [OF applied(5)] Cons.prems(2)
    have "applied_events g c' @ effects_since ?w1 w' = pre @ ?win"
      by simp
    then consider
      (here) "sql = c" "args = []" "\<exists>post'. post = DBExec insertMigration [f] None # post'"
    | (later) p where "effects_since ?w1 w' = p @ ?win"
      by (auto simp: applied_events_def Cons_eq_append_conv)
    then show ?thesis
    proof cases
      case here
      then show ?thesis by auto
    next
      case (later p)
      with Cons.IH [OF applied(5) later] show ?thesis by auto
    qed
  next
    case (read_fail err')
    with Cons.prems(2) show ?thesis by (auto simp: Cons_eq_append_conv)
  next
    case (exec_fail c' err' d)
    with Cons.prems(2) show ?thesis by (auto simp: Cons_eq_append_conv)
  next
    case (record_fail c' d err' d')
    with Cons.prems(2) show ?thesis by (auto simp: Cons_eq_append_conv)
  qed
qed

lemma migrate_pending_names_record_failure:
  "migrate_pending sys ex files w = (r, w') \<Longrightarrow>
     effects_since w w' = pre @ DBExec insertMigration [f] (Some err) # post \<Longrightarrow>
     r = Some (''failed to record migration '' @ f @ '': '' @ err)"
proof (induction files arbitrary: w pre)
  case Nil
  then show ?case by simp
next
  case (Cons g rest)
  let ?win = "DBExec insertMigration [f] (Some err) # post"
  from Cons.prems(1) show ?case
  proof (cases rule: migrate_pending_Cons_cases)
    case skip
    from effects_since_step [OF skip(2)] Cons.prems(2)
    have "skip_events g @ effects_since (w\<lparr>trace := trace w @ skip_events g\<rparr>) w' = pre @ ?win"
      by simp
    then obtain p where
      "effects_since (w\<lparr>trace := trace w @ skip_events g\<rparr>) w' = p @ ?win"
      by (auto simp: skip_events_def Cons_eq_append_conv)
    with Cons.IH [OF skip(2) this] show ?thesis by auto
  next
    case (applied c' d d')
    let ?w1 = "w\<lparr>database := d', trace := trace w @ applied_events g c'\<rparr>"
    from effects_since_step [OF applied(5)] Cons.prems(2)
    have "applied_events g c' @ effects_since ?w1 w' = pre @ ?win"
      by simp
    then obtain p where "effects_since ?w1 w' = p @ ?win"
      by (auto simp: applied_events_def Cons_eq_append_conv)
    with Cons.IH [OF applied(5) this] show ?thesis by auto
  next
    case (read_fail err')
    with Cons.prems(2) show ?thesis by (auto simp: Cons_eq_append_conv)
  next
    case (exec_fail c' err' d)
    with Cons.prems(2) show ?thesis by (auto simp: Cons_eq_append_conv)
  next
    case (record_fail c' d err' d')
    with Cons.prems(2) show ?thesis by (auto simp: Cons_eq_append_conv)
  qed
qed

lemma files_read_simps [simp]:
  "files_read [] = []" "files_read (e # es) = file_read e @ files_read es"
  "files_read (es @ es') = files_read es @ files_read es'"
  by (simp_all add: files_read_def)

lemma scripts_run_simps [simp]:
  "scripts_run [] = []" "scripts_run (e # es) = script_run e @ scripts_run es"
  "scripts_run (es @ es') = scripts_run es @ scripts_run es'"
  by (simp_all add: scripts_run_def)

lemma migrate_pending_order:
  "migrate_pending sys ex files w = (r, w') \<Longrightarrow>
     \<exists>n\<le>length (filter (\<lambda>f. f \<notin> ex) files).
        map fst (files_read (effects_since w w')) =
          map (Join migrationDir) (take n (filter (\<lambda>f. f \<notin> ex) files)) \<and>
        scripts_run (effects_since w w') = map snd (files_read (effects_since w w')) \<and>
        (\<forall>(p, c)\<in>set (files_read (effects_since w w')). readfile sys p = Inr c) \<and>
        (r = None \<longrightarrow> n = length (filter (\<lambda>f. f \<notin> ex) files))"
proof (induction files arbitrary: w)
  case Nil
  then show ?case by simp
next
  case (Cons g rest)
  from Cons.prems(1) show ?case
  proof (cases rule: migrate_pending_Cons_cases)
    case skip
    from Cons.IH [OF skip(2)] effects_since_step [OF skip(2)] skip(1)
    show ?thesis by (auto simp: skip_events_def)
  next
    case (applied c' d d')
    let ?w1 = "w\<lparr>database := d', trace := trace w @ applied_events g c'\<rparr>"
    from Cons.IH [OF applied(5)] obtain n where n:
      "n \<le> length (filter (\<lambda>f. f \<notin> ex) rest)"
      "map fst (files_read (effects_since ?w1 w')) =
          map (Join migrationDir) (take n (filter (\<lambda>f. f \<notin> ex) rest))"
      "scripts_run (effects_since ?w1 w') = map snd (files_read (effects_since ?w1 w'))"
      "\<forall>(p, c)\<in>set (files_read (effects_since ?w1 w')). readfile sys p = Inr c"
      "r = None \<longrightarrow> n = length (filter (\<lambda>f. f \<notin> ex) rest)"
      by blast
    show ?thesis
      apply (rule exI [of _ "Suc n"])
      using n applied(1,2) effects_since_step [OF applied(5)]
      by (auto simp: applied_events_def)
  next
    case (read_fail err')
    then show ?thesis by (intro exI [of _ 0]) simp
  next
    case (exec_fail c' err' d)
    then show ?thesis by (intro exI [of _ 1]) simp
  next
    case (record_fail c' d err' d')
    then show ?thesis by (intro exI [of _ 1]) simp
  qed
qed

lemma RunMigrations_cases [consumes 1, case_names uninit create_fail readdir_fail query_fail scan_fail loop]:
  assumes "RunMigrations sys w = (r, w')"
  obtains
    "DB w = None" "r = Some ''database not initialized''" "w' = w"
  | err d where "DB w \<noteq> None"
      "pgx_exec sys createMigrationsTable [] (database w) = (Some err, d)"
      "r = Some (''failed to create migrations table: '' @ err)"
      "w' = w\<lparr>database := d, trace := trace w @ [DBExec createMigrationsTable [] (Some err)]\<rparr>"
  | d err where "DB w \<noteq> None"
      "pgx_exec sys createMigrationsTable [] (database w) = (None, d)"
      "readdir sys migrationDir = Inl err"
      "r = Some (''failed to read migrations directory: '' @ err)"
      "w' = w\<lparr>database := d, trace := trace w @
         [DBExec createMigrationsTable [] None, ReadDir migrationDir (Inl err)]\<rparr>"
  | d files err where "DB w \<noteq> None"
      "pgx_exec sys createMigrationsTable [] (database w) = (None, d)"
      "readdir sys migrationDir = Inr files"
      "pgx_query sys selectMigrations d = Inl err"
      "r = Some (''failed to query executed migrations: '' @ err)"
      "w' = w\<lparr>database := d, trace := trace w @ bootstrap_events (Inr files) (Inl err)\<rparr>"
  | d files rows err where "DB w \<noteq> None"
      "pgx_exec sys createMigrationsTable [] (database w) = (None, d)"
      "readdir sys migrationDir = Inr files"
      "pgx_query sys selectMigrations d = Inr rows"
      "scan_rows rows {} = Inl err" "r = Some err"
      "w' = w\<lparr>database := d, trace := trace w @ bootstrap_events (Inr files) (Inr rows)\<rparr>"
  | d files rows ex where "DB w \<noteq> None"
      "pgx_exec sys createMigrationsTable [] (database w) = (None, d)"
      "readdir sys migrationDir = Inr files"
      "pgx_query sys selectMigrations d = Inr rows"
      "scan_rows rows {} = Inr ex"
      "migrate_pending sys ex (sqlFiles files)
         (w\<lparr>database := d, trace := trace w @ bootstrap_events (Inr files) (Inr rows)\<rparr>) = (r, w')"
  using assms
  by (auto simp: RunMigrations_def Exec_def Query_def emit_def Let_def bootstrap_events_def
           split: if_splits sum.splits prod.splits option.splits)

lemma scan_rows_Inr:
  "scan_rows rows acc = Inr ex \<Longrightarrow> ex = acc \<union> {f. Inr f \<in> set rows}"
proof (induction rows acc rule: scan_rows.induct)
  case (1 acc)
  then show ?case by simp
next
  case (2 err rows acc)
  then show ?case by simp
next
  case (3 f rows acc)
  then show ?case by auto
qed

lemma sqlFiles_strictly_sorted:
  "distinct (map Name files) \<Longrightarrow> sorted_wrt (<) (sqlFiles files)"
  by (simp add: sqlFiles_def strict_sorted_iff distinct_map_filter)


lemma migrate_pending_effect_kinds:
  "migrate_pending sys ex files w = (r, w') \<Longrightarrow> e \<in> set (effects_since w w') \<Longrightarrow>
     (\<exists>line. e = Print line) \<or> (\<exists>path res. e = ReadFile path res) \<or> (\<exists>sql args err. e = DBExec sql args err)"
proof (induction files arbitrary: w)
  case Nil
  then show ?case by simp
next
  case (Cons g rest)
  from Cons.prems(1) show ?case
  proof (cases rule: migrate_pending_Cons_cases)
    case skip
    from Cons.IH [OF skip(2)] effects_since_step [OF skip(2)] Cons.prems(2)
    show ?thesis by (auto simp: skip_events_def)
  next
    case (applied c' d d')
    from Cons.IH [OF applied(5)] effects_since_step [OF applied(5)] Cons.prems(2)
    show ?thesis by (auto simp: applied_events_def)
  next
    case (read_fail err')
    with Cons.prems(2) show ?thesis by auto
  next
    case (exec_fail c' err' d)
    with Cons.prems(2) show ?thesis by auto
  next
    case (record_fail c' d err' d')
    with Cons.prems(2) show ?thesis by auto
  qed
qed

section \<open>RunMigrations as a whole\<close>

text \<open>
  An effect of the loop (a file read, or a statement sent with an argument) that occurs
  in a run of RunMigrations occurs in its loop, after the effects before the loop; and
  a failed effect is the last effect of the run.
\<close>

lemma RunMigrations_window:
  assumes run: "RunMigrations sys w = (r, w')"
    and eff: "effects_since w w' = pre @ e # post"
    and kind: "(\<exists>path res. e = ReadFile path res) \<or> (\<exists>sql a args res. e = DBExec sql (a # args) res)"
  shows "\<exists>ex files w1 boot pre'.
           migrate_pending sys ex files w1 = (r, w') \<and> pre = boot @ pre' \<and>
           effects_since w1 w' = pre' @ e # post"
  using run
proof (cases rule: RunMigrations_cases)
  case (loop d files rows ex)
  let ?w1 = "w\<lparr>database := d, trace := trace w @ bootstrap_events (Inr files) (Inr rows)\<rparr>"
  from effects_since_step [OF loop(6)] eff
  have "bootstrap_events (Inr files) (Inr rows) @ effects_since ?w1 w' = pre @ e # post"
    by simp
  from split_after_prefix [OF this, of "\<lambda>x. x = e"] kind
  obtain pre' where "pre = bootstrap_events (Inr files) (Inr rows) @ pre'"
    "effects_since ?w1 w' = pre' @ e # post"
    by (auto simp: bootstrap_events_def)
  with loop(6) show ?thesis by blast
next
  case uninit
  with eff show ?thesis by simp
next
  case (create_fail err d)
  with eff kind show ?thesis by (auto simp: Cons_eq_append_conv)
next
  case (readdir_fail d err)
  with eff kind show ?thesis by (auto simp: Cons_eq_append_conv)
next
  case (query_fail d files err)
  with eff kind show ?thesis by (auto simp: Cons_eq_append_conv bootstrap_events_def)
next
  case (scan_fail d files rows err)
  with eff kind show ?thesis by (auto simp: Cons_eq_append_conv bootstrap_events_def)
qed

lemma RunMigrations_fail_fast:
  assumes run: "RunMigrations sys w = (r, w')"
    and eff: "effects_since w w' = pre @ e # post" and bad: "failed e"
  shows "post = [] \<and> r \<noteq> None"
  using run
proof (cases rule: RunMigrations_cases)
  case (loop d files rows ex)
  let ?w1 = "w\<lparr>database := d, trace := trace w @ bootstrap_events (Inr files) (Inr rows)\<rparr>"
  from effects_since_step [OF loop(6)] eff
  have "bootstrap_events (Inr files) (Inr rows) @ effects_since ?w1 w' = pre @ e # post"
    by simp
  from split_after_prefix [where P = failed, OF this _ bad]
  obtain pre' where "effects_since ?w1 w' = pre' @ e # post"
    by (auto simp: bootstrap_events_def)
  from migrate_pending_fail_fast [OF loop(6) this bad] show ?thesis .
next
  case uninit
  with eff show ?thesis by simp
next
  case (create_fail err d)
  with eff bad show ?thesis by (auto simp: Cons_eq_append_conv)
next
  case (readdir_fail d err)
  with eff bad show ?thesis by (auto simp: Cons_eq_append_conv)
next
  case (query_fail d files err)
  with eff bad show ?thesis by (auto simp: Cons_eq_append_conv bootstrap_events_def)
next
  case (scan_fail d files rows err)
  with eff bad show ?thesis by (auto simp: Cons_eq_append_conv bootstrap_events_def)
qed


section \<open>The loop of SeedDatabase\<close>

lemma seed_files_Cons_cases [consumes 1, case_names read_fail exec_fail seeded]:
  assumes "seed_files sys (f # rest) w = (r, w')"
  obtains
    err where "readfile sys (Join seedDir f) = Inl err"
      "r = Some (''failed to read seed file '' @ f @ '': '' @ err)"
      "w' = w\<lparr>trace := trace w @
          [Print (''Executing seed file '' @ f), ReadFile (Join seedDir f) (Inl err)]\<rparr>"
  | c err d where "readfile sys (Join seedDir f) = Inr c"
      "pgx_exec sys c [] (database w) = (Some err, d)"
      "r = Some (''failed to execute seed file '' @ f @ '': '' @ err)"
      "w' = w\<lparr>database := d, trace := trace w @
          [Print (''Executing seed file '' @ f), ReadFile (Join seedDir f) (Inr c),
           DBExec c [] (Some err)]\<rparr>"
  | c d where "readfile sys (Join seedDir f) = Inr c"
      "pgx_exec sys c [] (database w) = (None, d)"
      "seed_files sys rest (w\<lparr>database := d, trace := trace w @ seeded_events f c\<rparr>) = (r, w')"
  using assms
  by (auto simp: Exec_def emit_def Let_def seeded_events_def
           split: if_splits sum.splits prod.splits option.splits)

lemma seed_files_grows:
  "seed_files sys files w = (r, w') \<Longrightarrow> \<exists>new. trace w' = trace w @ new"
proof (induction files arbitrary: w)
  case Nil
  then show ?case by simp
next
  case (Cons f rest)
  from Cons.prems show ?case
  proof (cases rule: seed_files_Cons_cases)
    case (seeded c d)
    from Cons.IH [OF seeded(3)] show ?thesis by auto
  qed auto
qed

lemma seed_effects_step:
  assumes "seed_files sys files (v\<lparr>trace := trace w @ es\<rparr>) = (r, w')"
  shows "effects_since w w' = es @ effects_since (v\<lparr>trace := trace w @ es\<rparr>) w'"
proof -
  from seed_files_grows [OF assms] obtain new where "trace w' = (trace w @ es) @ new"
    by auto
  then show ?thesis by (simp add: effects_since_def)
qed

lemma seed_files_fail_fast:
  "seed_files sys files w = (r, w') \<Longrightarrow>
     effects_since w w' = pre @ e # post \<Longrightarrow> failed e \<Longrightarrow> post = [] \<and> r \<noteq> None"
proof (induction files arbitrary: w pre)
  case Nil
  then show ?case by simp
next
  case (Cons f rest)
  from Cons.prems(1) show ?case
  proof (cases rule: seed_files_Cons_cases)
    case (seeded c d)
    let ?w1 = "w\<lparr>database := d, trace := trace w @ seeded_events f c\<rparr>"
    from seed_effects_step [OF seeded(3)] Cons.prems(2)
    have "seeded_events f c @ effects_since ?w1 w' = pre @ e # post"
      by simp
    from split_after_prefix [where P = failed, OF this _ Cons.prems(3)]
    obtain pre' where "effects_since ?w1 w' = pre' @ e # post"
      by (auto simp: seeded_events_def)
    from Cons.IH [OF seeded(3) this Cons.prems(3)] show ?thesis .
  next
    case (read_fail err')
    with Cons.prems(2,3) show ?thesis by (auto simp: Cons_eq_append_conv)
  next
    case (exec_fail c err' d)
    with Cons.prems(2,3) show ?thesis by (auto simp: Cons_eq_append_conv)
  qed
qed

lemma seed_files_names_failure:
  "seed_files sys files w = (r, w') \<Longrightarrow>
     effects_since w w' = pre @ ReadFile (Join seedDir f) (Inr c) # DBExec sql args (Some err) # post \<Longrightarrow>
     r = Some (''failed to execute seed file '' @ f @ '': '' @ err)"
proof (induction files arbitrary: w pre)
  case Nil
  then show ?case by simp
next
  case (Cons g rest)
  let ?win = "ReadFile (Join seedDir f) (Inr c) # DBExec sql args (Some err) # post"
  from Cons.prems(1) show ?case
  proof (cases rule: seed_files_Cons_cases)
    case (seeded c' d)
    let ?w1 = "w\<lparr>database := d, trace := trace w @ seeded_events g c'\<rparr>"
    from seed_effects_step [OF seeded(3)] Cons.prems(2)
    have "seeded_events g c' @ effects_since ?w1 w' = pre @ ?win"
      by simp
    then obtain pre' where "effects_since ?w1 w' = pre' @ ?win"
      by (auto simp: seeded_events_def Cons_eq_append_conv)
    from Cons.IH [OF seeded(3) this] show ?thesis .
  next
    case (read_fail err')
    with Cons.prems(2) show ?thesis by (auto simp: Cons_eq_append_conv)
  next
    case (exec_fail c' err' d)
    with Cons.prems(2) show ?thesis by (auto simp: Cons_eq_append_conv)
  qed
qed

lemma SeedDatabase_cases [consumes 1, case_names uninit readdir_fail loop]:
  assumes "SeedDatabase sys w = (r, w')"
  obtains
    "DB w = None" "r = Some ''database not initialized''" "w' = w"
  | err where "DB w \<noteq> None" "readdir sys seedDir = Inl err"
      "r = Some (''failed to read seeds directory: '' @ err)"
      "w' = w\<lparr>trace := trace w @ [ReadDir seedDir (Inl err)]\<rparr>"
  | files where "DB w \<noteq> None" "readdir sys seedDir = Inr files"
      "seed_files sys (sqlFiles files) (w\<lparr>trace := trace w @ [ReadDir seedDir (Inr files)]\<rparr>) = (r, w')"
  using assms
  by (auto simp: SeedDatabase_def emit_def Let_def split: if_splits sum.splits)

lemma SeedDatabase_fail_fast:
  assumes run: "SeedDatabase sys w = (r, w')"
    and eff: "effects_since w w' = pre @ e # post" and bad: "failed e"
  shows "post = [] \<and> r \<noteq> None"
  using run
proof (cases rule: SeedDatabase_cases)
  case (loop files)
  let ?w1 = "w\<lparr>trace := trace w @ [ReadDir seedDir (Inr files)]\<rparr>"
  from seed_effects_step [OF loop(3)] eff
  have "[ReadDir seedDir (Inr files)] @ effects_since ?w1 w' = pre @ e # post"
    by simp
  from split_after_prefix [where P = failed, OF this _ bad]
  obtain pre' where "effects_since ?w1 w' = pre' @ e # post"
    by auto
  from seed_files_fail_fast [OF loop(3) this bad] show ?thesis .
next
  case uninit
  with eff show ?thesis by simp
next
  case (readdir_fail err)
  with eff bad show ?thesis by (auto simp: Cons_eq_append_conv)
qed

lemma SeedDatabase_names_failure:
  assumes run: "SeedDatabase sys w = (r, w')"
    and eff: "effects_since w w' =
       pre @ ReadFile (Join seedDir f) (Inr c) # DBExec sql args (Some err) # post"
  shows "r = Some (''failed to execute seed file '' @ f @ '': '' @ err)"
  using run
proof (cases rule: SeedDatabase_cases)
  case (loop files)
  let ?w1 = "w\<lparr>trace := trace w @ [ReadDir seedDir (Inr files)]\<rparr>"
  from seed_effects_step [OF loop(3)] eff
  have "[ReadDir seedDir (Inr files)] @ effects_since ?w1 w' =
      pre @ ReadFile (Join seedDir f) (Inr c) # DBExec sql args (Some err) # post"
    by simp
  then obtain pre' where "effects_since ?w1 w' =
      pre' @ ReadFile (Join seedDir f) (Inr c) # DBExec sql args (Some err) # post"
    by (auto simp: Cons_eq_append_conv)
  from seed_files_names_failure [OF loop(3) this] show ?thesis .
next
  case uninit
  with eff show ?thesis by simp
next
  case (readdir_fail err)
  with eff show ?thesis by (auto simp: Cons_eq_append_conv)
qed


section \<open>RunMigrations on the reference database\<close>

lemma postgres_exec_create [simp]:
  "postgres_exec script createMigrationsTable [] d = (None, create_tracker d)"
  by (simp add: postgres_exec_def)

lemma postgres_exec_insert:
  "postgres_exec script insertMigration [f] d =
     (case migrations d of
        None \<Rightarrow> (Some ''relation migrations does not exist'', d)
      | Some rows \<Rightarrow>
          (if f \<in> set rows then (Some ''duplicate key value violates unique constraint'', d)
           else (None, d\<lparr>migrations := Some (rows @ [f])\<rparr>)))"
  by (simp add: postgres_exec_def)

lemma postgres_query_select [simp]:
  "postgres_query selectMigrations d =
     (case migrations d of
        None \<Rightarrow> Inl ''relation migrations does not exist''
      | Some rows \<Rightarrow> Inr (map Inr rows))"
  by (simp add: postgres_query_def)

lemma migrations_create_tracker:
  "migrations (create_tracker d) = Some (case migrations d of None \<Rightarrow> [] | Some rows \<Rightarrow> rows)"
  by (simp add: create_tracker_def split: option.split)

lemma scan_rows_map_Inr: "scan_rows (map Inr rows) acc = Inr (acc \<union> set rows)"
  by (induction rows arbitrary: acc) auto





lemma migrate_pending_all_valid:
  assumes pg: "pgx_exec sys = postgres_exec script"
  shows "\<forall>f\<in>set files. \<exists>c. readfile sys (Join migrationDir f) = Inr c \<and>
            (\<forall>d. \<exists>d'. postgres_exec script c [] d = (None, d') \<and> migrations d' = migrations d) \<Longrightarrow>
     distinct files \<Longrightarrow> set files \<inter> ex = {} \<Longrightarrow> set files \<inter> set rows = {} \<Longrightarrow>
     migrations (database w) = Some rows \<Longrightarrow>
     \<exists>w'. migrate_pending sys ex files w = (None, w') \<and> migrations (database w') = Some (rows @ files)"
proof (induction files arbitrary: w rows)
  case Nil
  then show ?case by simp
next
  case (Cons g rest)
  from Cons.prems(1) obtain c where c: "readfile sys (Join migrationDir g) = Inr c"
    "\<forall>d. \<exists>d'. postgres_exec script c [] d = (None, d') \<and> migrations d' = migrations d"
    by auto
  from c(2) obtain d where d: "postgres_exec script c [] (database w) = (None, d)"
    "migrations d = migrations (database w)"
    by blast
  let ?d' = "d\<lparr>migrations := Some (rows @ [g])\<rparr>"
  let ?w1 = "w\<lparr>database := ?d', trace := trace w @ applied_events g c\<rparr>"
  from d(2) Cons.prems(4,5) have ins: "postgres_exec script insertMigration [g] d = (None, ?d')"
    by (simp add: postgres_exec_insert)
  from Cons.prems(3) c(1) d(1) ins
  have step: "migrate_pending sys ex (g # rest) w = migrate_pending sys ex rest ?w1"
    by (simp add: Exec_def pg emit_def applied_events_def)
  from Cons.prems have "\<exists>w'. migrate_pending sys ex rest ?w1 = (None, w') \<and>
      migrations (database w') = Some ((rows @ [g]) @ rest)"
    by (intro Cons.IH) auto
  with step show ?case by simp
qed

lemma failed_script_scenario:
  assumes pg: "pgx_exec sys = postgres_exec script" "pgx_query sys = postgres_query"
    and init: "DB w \<noteq> None"
    and listing: "readdir sys migrationDir = Inr files" "distinct (map Name files)"
      "sqlFiles files = [A, B, C]"
    and empty: "migrations (database w) = None \<or> migrations (database w) = Some []"
    and a: "readfile sys (Join migrationDir A) = Inr a"
      "\<forall>d. \<exists>d'. postgres_exec script a [] d = (None, d') \<and> migrations d' = migrations d"
    and b: "readfile sys (Join migrationDir B) = Inr b"
      "\<forall>d. postgres_exec script b [] d = (Some err, d)"
  shows "\<exists>w'. RunMigrations sys w = (Some (''failed to execute migration '' @ B @ '': '' @ err), w') \<and>
           migrations (database w') = Some [A] \<and> B \<noteq> A \<and> C \<noteq> A \<and>
           map fst (files_read (effects_since w w')) = [Join migrationDir A, Join migrationDir B]"
proof -
  from init obtain p where p: "DB w = Some p"
    by auto
  from sqlFiles_strictly_sorted [OF listing(2)] listing(3) have order: "B \<noteq> A" "C \<noteq> A"
    by auto
  let ?d0 = "create_tracker (database w)"
  from empty have d0: "migrations ?d0 = Some []"
    by (auto simp: migrations_create_tracker)
  from a(2) obtain d1 where d1: "postgres_exec script a [] ?d0 = (None, d1)" "migrations d1 = Some []"
    using d0 by metis
  let ?d2 = "d1\<lparr>migrations := Some [A]\<rparr>"
  from d1(2) have ins: "postgres_exec script insertMigration [A] d1 = (None, ?d2)"
    by (simp add: postgres_exec_insert)
  from b(2) have bad: "postgres_exec script b [] ?d2 = (Some err, ?d2)"
    by blast
  have "RunMigrations sys w =
      (Some (''failed to execute migration '' @ B @ '': '' @ err),
       w\<lparr>database := ?d2,
         trace := trace w @ bootstrap_events (Inr files) (Inr []) @ applied_events A a @
           [Print (''Executing migration '' @ B), ReadFile (Join migrationDir B) (Inr b),
            DBExec b [] (Some err)]\<rparr>)"
    using p listing(1,3) d0 a(1) b(1) d1(1) ins bad
    by (simp add: RunMigrations_def Exec_def Query_def pg emit_def bootstrap_events_def
          applied_events_def)
  with order show ?thesis
    by (simp add: bootstrap_events_def applied_events_def)
qed

section \<open>The example installation, run\<close>

lemma sqlFiles_demo_listing: "sqlFiles demo_listing = [''001_a.sql'', ''002_b.sql'', ''003_c.sql'']"
  by (simp add: sqlFiles_def demo_listing_def HasSuffix_def)

lemma demo_sys_simps:
  "pgx_exec (demo_sys script b) = postgres_exec script"
  "pgx_query (demo_sys script b) = postgres_query"
  "readdir (demo_sys script b) migrationDir = Inr demo_listing"
  "readfile (demo_sys script b) (Join migrationDir ''001_a.sql'') = Inr ''CREATE TABLE a ();''"
  "readfile (demo_sys script b) (Join migrationDir ''002_b.sql'') = Inr b"
  "readfile (demo_sys script b) (Join migrationDir ''003_c.sql'') = Inr ''CREATE TABLE c ();''"
  by (simp_all add: demo_sys_def migrationDir_def Join_def)

lemma demo_scripts:
  "postgres_exec script ''CREATE TABLE a ();'' [] d =
     (case script ''CREATE TABLE a ();'' d of Inl err \<Rightarrow> (Some err, d) | Inr d' \<Rightarrow> (None, d'))"
  "postgres_exec script ''CREATE TABLE b ();'' [] d =
     (case script ''CREATE TABLE b ();'' d of Inl err \<Rightarrow> (Some err, d) | Inr d' \<Rightarrow> (None, d'))"
  "postgres_exec script ''CREATE TABLE c ();'' [] d =
     (case script ''CREATE TABLE c ();'' d of Inl err \<Rightarrow> (Some err, d) | Inr d' \<Rightarrow> (None, d'))"
  "postgres_exec script ''CREATE TABEL b ();'' [] d =
     (case script ''CREATE TABEL b ();'' d of Inl err \<Rightarrow> (Some err, d) | Inr d' \<Rightarrow> (None, d'))"
  "postgres_exec script ''DROP TABLE migrations;'' [] d =
     (case script ''DROP TABLE migrations;'' d of Inl err \<Rightarrow> (Some err, d) | Inr d' \<Rightarrow> (None, d'))"
  "postgres_exec script ''DELETE FROM migrations;'' [] d =
     (case script ''DELETE FROM migrations;'' d of Inl err \<Rightarrow> (Some err, d) | Inr d' \<Rightarrow> (None, d'))"
  by (simp_all add: postgres_exec_def createMigrationsTable_def insertMigration_def)

lemma demo_world_simps [simp]:
  "DB (demo_world rows) = Some (Pool ''postgres://localhost:5432/userdb'')"
  "database (demo_world rows) = \<lparr>migrations = rows, applied = []\<rparr>"
  "trace (demo_world rows) = []"
  by (simp_all add: demo_world_def)


lemma demo_run_pending:
  "RunMigrations (demo_sys (plain_sql {}) ''CREATE TABLE b ();'') (demo_world (Some [''001_a.sql''])) =
     (None,
      (demo_world (Some [''001_a.sql'']))
        \<lparr>database := \<lparr>migrations = Some [''001_a.sql'', ''002_b.sql'', ''003_c.sql''],
                      applied = [''CREATE TABLE b ();'', ''CREATE TABLE c ();'']\<rparr>,
         trace := bootstrap_events (Inr demo_listing) (Inr [Inr ''001_a.sql'']) @
                  skip_events ''001_a.sql'' @
                  applied_events ''002_b.sql'' ''CREATE TABLE b ();'' @
                  applied_events ''003_c.sql'' ''CREATE TABLE c ();''\<rparr>)"
  by (simp add: RunMigrations_def Exec_def Query_def emit_def demo_sys_simps demo_scripts
        sqlFiles_demo_listing postgres_exec_insert plain_sql_def create_tracker_def
        demo_world_def bootstrap_events_def skip_events_def applied_events_def)

lemma demo_run_invalid:
  "RunMigrations (demo_sys (plain_sql {''CREATE TABEL b ();''}) ''CREATE TABEL b ();'') (demo_world None) =
     (Some ''failed to execute migration 002_b.sql: syntax error'',
      (demo_world None)
        \<lparr>database := \<lparr>migrations = Some [''001_a.sql''], applied = [''CREATE TABLE a ();'']\<rparr>,
         trace := bootstrap_events (Inr demo_listing) (Inr []) @
                  applied_events ''001_a.sql'' ''CREATE TABLE a ();'' @
                  [Print ''Executing migration 002_b.sql'',
                   ReadFile (Join migrationDir ''002_b.sql'') (Inr ''CREATE TABEL b ();''),
                   DBExec ''CREATE TABEL b ();'' [] (Some ''syntax error'')]\<rparr>)"
  by (simp add: RunMigrations_def Exec_def Query_def emit_def demo_sys_simps demo_scripts
        sqlFiles_demo_listing postgres_exec_insert plain_sql_def create_tracker_def
        bootstrap_events_def skip_events_def applied_events_def)

lemma demo_run_dropping:
  "RunMigrations (demo_sys dropping_sql ''DROP TABLE migrations;'') (demo_world None) =
     (Some ''failed to record migration 002_b.sql: relation migrations does not exist'',
      (demo_world None)
        \<lparr>database := \<lparr>migrations = None,
                      applied = [''CREATE TABLE a ();'', ''DROP TABLE migrations;'']\<rparr>,
         trace := bootstrap_events (Inr demo_listing) (Inr []) @
                  applied_events ''001_a.sql'' ''CREATE TABLE a ();'' @
                  [Print ''Executing migration 002_b.sql'',
                   ReadFile (Join migrationDir ''002_b.sql'') (Inr ''DROP TABLE migrations;''),
                   DBExec ''DROP TABLE migrations;'' [] None,
                   DBExec insertMigration [''002_b.sql''] (Some ''relation migrations does not exist'')]\<rparr>)"
  by (simp add: RunMigrations_def Exec_def Query_def emit_def demo_sys_simps demo_scripts
        sqlFiles_demo_listing postgres_exec_insert dropping_sql_def create_tracker_def
        bootstrap_events_def skip_events_def applied_events_def)




section \<open>The order of execution\<close>

text \<open>
  Claim C3. Take a run of RunMigrations that listed the directory as \<open>files\<close>, in any
  order but with distinct names, and read the snapshot \<open>rows\<close> of the tracker. The
  pending change-sets are the discovered files that are not in the snapshot, in
  strictly ascending order of filename. The files the run read are the first \<open>n\<close>
  pending ones in that order, all of them when the run returned no error; and the
  scripts it executed are, after the statement that creates the tracker table, the
  contents of these files, one after the other in the order of reading.
\<close>

theorem RunMigrations_ascending_order:
  assumes run: "RunMigrations sys w = (r, w')"
    and listing: "ReadDir migrationDir (Inr files) \<in> set (effects_since w w')"
    and snapshot: "DBQuery selectMigrations (Inr rows) \<in> set (effects_since w w')"
    and names: "distinct (map Name files)"
  shows "sorted_wrt (<) (filter (\<lambda>f. Inr f \<notin> set rows) (sqlFiles files)) \<and>
    (\<exists>n\<le>length (filter (\<lambda>f. Inr f \<notin> set rows) (sqlFiles files)).
        map fst (files_read (effects_since w w')) =
          map (Join migrationDir) (take n (filter (\<lambda>f. Inr f \<notin> set rows) (sqlFiles files))) \<and>
        (r = None \<longrightarrow> n = length (filter (\<lambda>f. Inr f \<notin> set rows) (sqlFiles files)))) \<and>
    scripts_run (effects_since w w') = createMigrationsTable # map snd (files_read (effects_since w w')) \<and>
    (\<forall>(p, c)\<in>set (files_read (effects_since w w')). readfile sys p = Inr c)"
proof -
  have sorted: "sorted_wrt (<) (filter (\<lambda>f. Inr f \<notin> set rows) (sqlFiles files))"
    using sqlFiles_strictly_sorted [OF names] by (rule sorted_wrt_filter)
  from run have "(\<exists>n\<le>length (filter (\<lambda>f. Inr f \<notin> set rows) (sqlFiles files)).
        map fst (files_read (effects_since w w')) =
          map (Join migrationDir) (take n (filter (\<lambda>f. Inr f \<notin> set rows) (sqlFiles files))) \<and>
        (r = None \<longrightarrow> n = length (filter (\<lambda>f. Inr f \<notin> set rows) (sqlFiles files)))) \<and>
    scripts_run (effects_since w w') = createMigrationsTable # map snd (files_read (effects_since w w')) \<and>
    (\<forall>(p, c)\<in>set (files_read (effects_since w w')). readfile sys p = Inr c)"
  proof (cases rule: RunMigrations_cases)
    case uninit
    with listing show ?thesis by simp
  next
    case (create_fail err d)
    with listing show ?thesis by simp
  next
    case (readdir_fail d err)
    with listing show ?thesis by simp
  next
    case (query_fail d files' err)
    with snapshot show ?thesis by (simp add: bootstrap_events_def)
  next
    case (scan_fail d files' rows' err)
    then show ?thesis by (intro conjI exI [of _ 0]) (simp_all add: bootstrap_events_def)
  next
    case (loop d files' rows' ex)
    let ?w1 = "w\<lparr>database := d, trace := trace w @ bootstrap_events (Inr files') (Inr rows')\<rparr>"
    have new: "effects_since w w' = bootstrap_events (Inr files') (Inr rows') @ effects_since ?w1 w'"
      by (rule effects_since_step [OF loop(6)])
    have "files' = files"
      using listing migrate_pending_effect_kinds [OF loop(6)] unfolding new
      by (auto simp: bootstrap_events_def)
    moreover have "rows' = rows"
      using snapshot migrate_pending_effect_kinds [OF loop(6)] unfolding new
      by (auto simp: bootstrap_events_def)
    moreover have "ex = {f. Inr f \<in> set rows'}"
      using scan_rows_Inr [OF loop(5)] by simp
    ultimately show ?thesis
      using migrate_pending_order [OF loop(6)] unfolding new
      by (auto simp: bootstrap_events_def)
  qed
  with sorted show ?thesis by blast
qed

theorem RunMigrations_ascending_order_witness:
  "map fst (files_read (effects_since (demo_world (Some [''001_a.sql'']))
      (snd (RunMigrations (demo_sys (plain_sql {}) ''CREATE TABLE b ();'')
              (demo_world (Some [''001_a.sql'']))))))
     = [Join migrationDir ''002_b.sql'', Join migrationDir ''003_c.sql''] \<and>
   sorted_wrt (<) [''002_b.sql'', ''003_c.sql'']"
proof -
  let ?w = "demo_world (Some [''001_a.sql''])"
  let ?w' = "snd (RunMigrations (demo_sys (plain_sql {}) ''CREATE TABLE b ();'') ?w)"
  have run: "RunMigrations (demo_sys (plain_sql {}) ''CREATE TABLE b ();'') ?w = (None, ?w')"
    by (simp add: demo_run_pending)
  have listing: "ReadDir migrationDir (Inr demo_listing) \<in> set (effects_since ?w ?w')"
    by (simp add: demo_run_pending effects_since_def bootstrap_events_def)
  have snapshot: "DBQuery selectMigrations (Inr [Inr ''001_a.sql'']) \<in> set (effects_since ?w ?w')"
    by (simp add: demo_run_pending effects_since_def bootstrap_events_def)
  have names: "distinct (map Name demo_listing)"
    by (simp add: demo_listing_def)
  from RunMigrations_ascending_order [OF run listing snapshot names]
  show ?thesis
    by (simp add: sqlFiles_demo_listing demo_run_pending effects_since_def bootstrap_events_def
          skip_events_def applied_events_def)
qed

section \<open>Failure of a change-set\<close>

text \<open>
  Claim C5. A failed call is the last effect of a run of RunMigrations, and the run
  returns an error: nothing is attempted after a failure. When the failed call is the
  execution of the script read from the file \<open>f\<close>, the error is "failed to execute
  migration \<open>f\<close>" with the cause. On the reference database with nothing applied yet
  and the change-sets \<open>A\<close>, \<open>B\<close>, \<open>C\<close> discovered, where \<open>A\<close> executes and the text of
  \<open>B\<close> is rejected, the run returns the error naming \<open>B\<close>, the tracker holds \<open>A\<close>
  alone, and \<open>C\<close> was not even read.
\<close>

theorem migration_failure_aborts:
  "(RunMigrations sys w = (r, w') \<longrightarrow>
      (\<forall>pre e post. effects_since w w' = pre @ e # post \<longrightarrow> failed e \<longrightarrow> post = [] \<and> r \<noteq> None) \<and>
      (\<forall>pre f c sql args err post.
          effects_since w w' =
            pre @ ReadFile (Join migrationDir f) (Inr c) # DBExec sql args (Some err) # post \<longrightarrow>
          r = Some (''failed to execute migration '' @ f @ '': '' @ err))) \<and>
   (pgx_exec sys = postgres_exec script \<longrightarrow> pgx_query sys = postgres_query \<longrightarrow> DB w \<noteq> None \<longrightarrow>
    readdir sys migrationDir = Inr files \<longrightarrow> distinct (map Name files) \<longrightarrow>
    sqlFiles files = [A, B, C] \<longrightarrow>
    (migrations (database w) = None \<or> migrations (database w) = Some []) \<longrightarrow>
    readfile sys (Join migrationDir A) = Inr a \<longrightarrow>
    (\<forall>d. \<exists>d'. postgres_exec script a [] d = (None, d') \<and> migrations d' = migrations d) \<longrightarrow>
    readfile sys (Join migrationDir B) = Inr b \<longrightarrow>
    (\<forall>d. postgres_exec script b [] d = (Some cause, d)) \<longrightarrow>
      (\<exists>w2. RunMigrations sys w = (Some (''failed to execute migration '' @ B @ '': '' @ cause), w2) \<and>
         migrations (database w2) = Some [A] \<and> B \<noteq> A \<and> C \<noteq> A \<and>
         map fst (files_read (effects_since w w2)) = [Join migrationDir A, Join migrationDir B]))"
proof (intro conjI impI allI)
  fix pre e post
  assume "RunMigrations sys w = (r, w')" "effects_since w w' = pre @ e # post" "failed e"
  then show "post = []" "r \<noteq> None"
    using RunMigrations_fail_fast by blast+
next
  fix pre f c sql args err post
  assume run: "RunMigrations sys w = (r, w')"
    and eff: "effects_since w w' =
            pre @ ReadFile (Join migrationDir f) (Inr c) # DBExec sql args (Some err) # post"
  from RunMigrations_window [OF run eff]
  obtain ex fs w1 boot pre' where loop: "migrate_pending sys ex fs w1 = (r, w')"
    "effects_since w1 w' = pre' @ ReadFile (Join migrationDir f) (Inr c) # DBExec sql args (Some err) # post"
    by auto
  from migrate_pending_names_failure [OF loop]
  show "r = Some (''failed to execute migration '' @ f @ '': '' @ err)" .
next
  assume "pgx_exec sys = postgres_exec script" "pgx_query sys = postgres_query" "DB w \<noteq> None"
    "readdir sys migrationDir = Inr files" "distinct (map Name files)" "sqlFiles files = [A, B, C]"
    "migrations (database w) = None \<or> migrations (database w) = Some []"
    "readfile sys (Join migrationDir A) = Inr a"
    "\<forall>d. \<exists>d'. postgres_exec script a [] d = (None, d') \<and> migrations d' = migrations d"
    "readfile sys (Join migrationDir B) = Inr b"
    "\<forall>d. postgres_exec script b [] d = (Some cause, d)"
  then show "\<exists>w2. RunMigrations sys w = (Some (''failed to execute migration '' @ B @ '': '' @ cause), w2) \<and>
         migrations (database w2) = Some [A] \<and> B \<noteq> A \<and> C \<noteq> A \<and>
         map fst (files_read (effects_since w w2)) = [Join migrationDir A, Join migrationDir B]"
    by (rule failed_script_scenario)
qed

theorem migration_failure_aborts_witness:
  "fst (RunMigrations (demo_sys (plain_sql {''CREATE TABEL b ();''}) ''CREATE TABEL b ();'')
          (demo_world None)) =
     Some ''failed to execute migration 002_b.sql: syntax error'' \<and>
   migrations (database (snd (RunMigrations
       (demo_sys (plain_sql {''CREATE TABEL b ();''}) ''CREATE TABEL b ();'') (demo_world None)))) =
     Some [''001_a.sql'']"
proof -
  let ?sys = "demo_sys (plain_sql {''CREATE TABEL b ();''}) ''CREATE TABEL b ();''"
  let ?w = "demo_world None"
  let ?r = "fst (RunMigrations ?sys ?w)"
  let ?w' = "snd (RunMigrations ?sys ?w)"
  have run: "RunMigrations ?sys ?w = (?r, ?w')"
    by simp
  have eff: "effects_since ?w ?w' =
      (bootstrap_events (Inr demo_listing) (Inr []) @ applied_events ''001_a.sql'' ''CREATE TABLE a ();'' @
       [Print ''Executing migration 002_b.sql'']) @
      ReadFile (Join migrationDir ''002_b.sql'') (Inr ''CREATE TABEL b ();'') #
      DBExec ''CREATE TABEL b ();'' [] (Some ''syntax error'') # []"
    by (simp add: demo_run_invalid effects_since_def)
  have bad: "failed (DBExec ''CREATE TABEL b ();'' [] (Some ''syntax error''))"
    by simp
  from migration_failure_aborts [THEN conjunct1, rule_format, OF run]
  have general: "?r = Some (''failed to execute migration '' @ ''002_b.sql'' @ '': '' @ ''syntax error'')"
    using eff by blast
  have "\<exists>w2. RunMigrations ?sys ?w =
        (Some (''failed to execute migration '' @ ''002_b.sql'' @ '': '' @ ''syntax error''), w2) \<and>
      migrations (database w2) = Some [''001_a.sql''] \<and> ''002_b.sql'' \<noteq> ''001_a.sql'' \<and>
      ''003_c.sql'' \<noteq> ''001_a.sql'' \<and>
      map fst (files_read (effects_since ?w w2)) =
        [Join migrationDir ''001_a.sql'', Join migrationDir ''002_b.sql'']"
  proof (rule migration_failure_aborts [THEN conjunct2, rule_format])
    show "pgx_exec ?sys = postgres_exec (plain_sql {''CREATE TABEL b ();''})"
      "pgx_query ?sys = postgres_query" "readdir ?sys migrationDir = Inr demo_listing"
      "readfile ?sys (Join migrationDir ''001_a.sql'') = Inr ''CREATE TABLE a ();''"
      "readfile ?sys (Join migrationDir ''002_b.sql'') = Inr ''CREATE TABEL b ();''"
      by (simp_all add: demo_sys_simps)
    show "DB ?w \<noteq> None" "migrations (database ?w) = None \<or> migrations (database ?w) = Some []"
      by simp_all
    show "distinct (map Name demo_listing)"
      by (simp add: demo_listing_def)
    show "sqlFiles demo_listing = [''001_a.sql'', ''002_b.sql'', ''003_c.sql'']"
      by (rule sqlFiles_demo_listing)
  qed (simp_all add: demo_scripts plain_sql_def)
  with general show ?thesis
    by auto
qed

section \<open>Execution and recording\<close>

text \<open>
  Claim C2, as stated, fails. RunMigrations sends the statements of a change-set and the
  insertion of its record as two separate calls of \<^verbatim>\<open>DB.Exec\<close>, outside any transaction.
  In the example the second change-set drops the tracker table: its statements execute,
  the insertion of its record fails, and the run returns with the statements applied
  and no record of them, without any crash.
\<close>

theorem execution_without_record_counterexample:
  "fst (RunMigrations (demo_sys dropping_sql ''DROP TABLE migrations;'') (demo_world None)) =
     Some ''failed to record migration 002_b.sql: relation migrations does not exist'' \<and>
   applied (database (snd (RunMigrations (demo_sys dropping_sql ''DROP TABLE migrations;'')
                             (demo_world None)))) =
     [''CREATE TABLE a ();'', ''DROP TABLE migrations;''] \<and>
   migrations (database (snd (RunMigrations (demo_sys dropping_sql ''DROP TABLE migrations;'')
                                (demo_world None)))) = None"
  by (simp add: demo_run_dropping)

text \<open>
  Claim C2, amended. In every run of RunMigrations, against any database: the insertion
  of the record of \<open>f\<close> is only ever attempted immediately after the script read from
  \<open>f\<close> has executed without error, so there is no record without the execution; a
  script that has executed without error is immediately followed by the attempt to
  insert its record; and when that insertion fails, it is the last effect of the run,
  which returns "failed to record migration \<open>f\<close>" with the cause.
\<close>

theorem record_follows_execution:
  assumes run: "RunMigrations sys w = (r, w')"
  shows "(\<forall>pre f res post.
            effects_since w w' = pre @ DBExec insertMigration [f] res # post \<longrightarrow>
            (\<exists>pre' c. pre = pre' @ [ReadFile (Join migrationDir f) (Inr c), DBExec c [] None])) \<and>
         (\<forall>pre f c sql args post.
            effects_since w w' = pre @ ReadFile (Join migrationDir f) (Inr c) # DBExec sql args None # post \<longrightarrow>
            sql = c \<and> args = [] \<and> (\<exists>res post'. post = DBExec insertMigration [f] res # post')) \<and>
         (\<forall>pre f err post.
            effects_since w w' = pre @ DBExec insertMigration [f] (Some err) # post \<longrightarrow>
            post = [] \<and> r = Some (''failed to record migration '' @ f @ '': '' @ err))"
proof (intro conjI allI impI)
  fix pre f res post
  assume eff: "effects_since w w' = pre @ DBExec insertMigration [f] res # post"
  from RunMigrations_window [OF run eff]
  obtain ex files w1 boot pre' where loop: "migrate_pending sys ex files w1 = (r, w')"
    "pre = boot @ pre'" "effects_since w1 w' = pre' @ DBExec insertMigration [f] res # post"
    by auto
  from migrate_pending_record_after_exec [OF loop(1,3)] loop(2)
  show "\<exists>pre' c. pre = pre' @ [ReadFile (Join migrationDir f) (Inr c), DBExec c [] None]"
    by auto
next
  fix pre f c sql args post
  assume eff: "effects_since w w' = pre @ ReadFile (Join migrationDir f) (Inr c) # DBExec sql args None # post"
  from RunMigrations_window [OF run eff]
  obtain ex files w1 boot pre' where loop: "migrate_pending sys ex files w1 = (r, w')"
    "effects_since w1 w' = pre' @ ReadFile (Join migrationDir f) (Inr c) # DBExec sql args None # post"
    by auto
  from migrate_pending_exec_then_record [OF loop]
  show "sql = c" "args = []" "\<exists>res post'. post = DBExec insertMigration [f] res # post'"
    by auto
next
  fix pre f err post
  assume eff: "effects_since w w' = pre @ DBExec insertMigration [f] (Some err) # post"
  from RunMigrations_fail_fast [OF run eff] show "post = []"
    by simp
  from RunMigrations_window [OF run eff]
  obtain ex files w1 boot pre' where loop: "migrate_pending sys ex files w1 = (r, w')"
    "effects_since w1 w' = pre' @ DBExec insertMigration [f] (Some err) # post"
    by auto
  from migrate_pending_names_record_failure [OF loop]
  show "r = Some (''failed to record migration '' @ f @ '': '' @ err)" .
qed

theorem record_follows_execution_witness:
  "fst (RunMigrations (demo_sys dropping_sql ''DROP TABLE migrations;'') (demo_world None)) =
     Some (''failed to record migration '' @ ''002_b.sql'' @ '': '' @
           ''relation migrations does not exist'') \<and>
   (\<exists>pre' c.
      bootstrap_events (Inr demo_listing) (Inr []) @
      applied_events ''001_a.sql'' ''CREATE TABLE a ();'' @
      [Print ''Executing migration 002_b.sql'',
       ReadFile (Join migrationDir ''002_b.sql'') (Inr ''DROP TABLE migrations;''),
       DBExec ''DROP TABLE migrations;'' [] None] =
      pre' @ [ReadFile (Join migrationDir ''002_b.sql'') (Inr c), DBExec c [] None])"
proof -
  let ?sys = "demo_sys dropping_sql ''DROP TABLE migrations;''"
  let ?w = "demo_world None"
  let ?r = "fst (RunMigrations ?sys ?w)"
  let ?w' = "snd (RunMigrations ?sys ?w)"
  have run: "RunMigrations ?sys ?w = (?r, ?w')"
    by simp
  have eff: "effects_since ?w ?w' =
      (bootstrap_events (Inr demo_listing) (Inr []) @
       applied_events ''001_a.sql'' ''CREATE TABLE a ();'' @
       [Print ''Executing migration 002_b.sql'',
        ReadFile (Join migrationDir ''002_b.sql'') (Inr ''DROP TABLE migrations;''),
        DBExec ''DROP TABLE migrations;'' [] None]) @
      DBExec insertMigration [''002_b.sql''] (Some ''relation migrations does not exist'') # []"
    by (simp add: demo_run_dropping effects_since_def)
  from record_follows_execution [OF run] eff show ?thesis
    by blast
qed

section \<open>Running twice\<close>




section \<open>The empty directory and the fresh database\<close>

text \<open>
  Claim C7. On the reference database, with the pool set up and the migrations directory
  listed as \<open>files\<close>. When no entry of the listing is a regular file ending in
  \<^verbatim>\<open>.sql\<close>, RunMigrations returns no error; its effects are the creation of the
  tracker table, the listing and the snapshot query, so no script is executed, and the
  tracker table exists afterwards. When the database has no tracker table, the table
  is created by the first effect of the run, before the directory is listed and the
  (empty) snapshot is read; and if every discovered change-set can be read and executes
  without touching the tracker, the run returns no error and the tracker holds the
  discovered change-sets in ascending order of filename.
\<close>

theorem tracker_bootstrap:
  assumes pg: "pgx_exec sys = postgres_exec script" "pgx_query sys = postgres_query"
    and init: "DB w \<noteq> None"
    and listing: "readdir sys migrationDir = Inr files"
  shows "(sqlFiles files = [] \<longrightarrow>
            RunMigrations sys w =
              (None, w\<lparr>database := create_tracker (database w),
                        trace := trace w @
                          bootstrap_events (Inr files)
                            (Inr (map Inr (case migrations (database w) of None \<Rightarrow> [] | Some rows \<Rightarrow> rows)))\<rparr>) \<and>
            migrations (create_tracker (database w)) \<noteq> None) \<and>
         (migrations (database w) = None \<longrightarrow> distinct (map Name files) \<longrightarrow>
            (\<forall>f\<in>set (sqlFiles files). \<exists>c. readfile sys (Join migrationDir f) = Inr c \<and>
               (\<forall>d. \<exists>d'. postgres_exec script c [] d = (None, d') \<and> migrations d' = migrations d)) \<longrightarrow>
            (\<exists>w' rest. RunMigrations sys w = (None, w') \<and>
               migrations (database w') = Some (sqlFiles files) \<and>
               effects_since w w' = bootstrap_events (Inr files) (Inr []) @ rest))"
proof (intro conjI impI)
  from init obtain p where p: "DB w = Some p"
    by auto
  assume "sqlFiles files = []"
  then show "RunMigrations sys w =
              (None, w\<lparr>database := create_tracker (database w),
                        trace := trace w @
                          bootstrap_events (Inr files)
                            (Inr (map Inr (case migrations (database w) of None \<Rightarrow> [] | Some rows \<Rightarrow> rows)))\<rparr>)"
    using p listing
    by (simp add: RunMigrations_def Exec_def Query_def pg emit_def bootstrap_events_def
          migrations_create_tracker scan_rows_map_Inr)
next
  show "migrations (create_tracker (database w)) \<noteq> None"
    by (simp add: migrations_create_tracker)
next
  assume fresh: "migrations (database w) = None" and names: "distinct (map Name files)"
    and valid: "\<forall>f\<in>set (sqlFiles files). \<exists>c. readfile sys (Join migrationDir f) = Inr c \<and>
               (\<forall>d. \<exists>d'. postgres_exec script c [] d = (None, d') \<and> migrations d' = migrations d)"
  let ?w1 = "w\<lparr>database := create_tracker (database w),
                 trace := trace w @ bootstrap_events (Inr files) (Inr [])\<rparr>"
  from init obtain p where p: "DB w = Some p"
    by auto
  have run: "RunMigrations sys w = migrate_pending sys {} (sqlFiles files) ?w1"
    using p listing fresh
    by (simp add: RunMigrations_def Exec_def Query_def pg emit_def bootstrap_events_def
          migrations_create_tracker)
  have "distinct (sqlFiles files)"
    using sqlFiles_strictly_sorted [OF names] by (simp add: strict_sorted_iff)
  with valid fresh
  have "\<exists>w'. migrate_pending sys {} (sqlFiles files) ?w1 = (None, w') \<and>
          migrations (database w') = Some ([] @ sqlFiles files)"
    by (intro migrate_pending_all_valid [OF pg(1)]) (simp_all add: migrations_create_tracker)
  then obtain w' where w': "migrate_pending sys {} (sqlFiles files) ?w1 = (None, w')"
    "migrations (database w') = Some (sqlFiles files)"
    by auto
  from effects_since_step [OF w'(1)] run w'
  show "\<exists>w' rest. RunMigrations sys w = (None, w') \<and>
               migrations (database w') = Some (sqlFiles files) \<and>
               effects_since w w' = bootstrap_events (Inr files) (Inr []) @ rest"
    by auto
qed

theorem tracker_bootstrap_witness:
  "RunMigrations ((demo_sys (plain_sql {}) [])\<lparr>readdir := \<lambda>dir. Inr [\<lparr>Name = ''README.md'', IsDir = False\<rparr>]\<rparr>)
       (demo_world None) =
     (None,
      (demo_world None)
        \<lparr>database := \<lparr>migrations = Some [], applied = []\<rparr>,
         trace := bootstrap_events (Inr [\<lparr>Name = ''README.md'', IsDir = False\<rparr>]) (Inr [])\<rparr>) \<and>
   fst (RunMigrations (demo_sys (plain_sql {}) ''CREATE TABLE b ();'') (demo_world None)) = None \<and>
   migrations (database (snd (RunMigrations (demo_sys (plain_sql {}) ''CREATE TABLE b ();'')
                                (demo_world None)))) =
     Some [''001_a.sql'', ''002_b.sql'', ''003_c.sql'']"
proof -
  let ?empty = "(demo_sys (plain_sql {}) [])\<lparr>readdir := \<lambda>dir. Inr [\<lparr>Name = ''README.md'', IsDir = False\<rparr>]\<rparr>"
  let ?sys = "demo_sys (plain_sql {}) ''CREATE TABLE b ();''"
  have none: "sqlFiles [\<lparr>Name = ''README.md'', IsDir = False\<rparr>] = []"
    by (simp add: sqlFiles_def HasSuffix_def)
  have "pgx_exec ?empty = postgres_exec (plain_sql {})" "pgx_query ?empty = postgres_query"
    "DB (demo_world None) \<noteq> None"
    "readdir ?empty migrationDir = Inr [\<lparr>Name = ''README.md'', IsDir = False\<rparr>]"
    by (simp_all add: demo_sys_def)
  from tracker_bootstrap [OF this, THEN conjunct1, rule_format, OF none]
  have first: "RunMigrations ?empty (demo_world None) =
     (None,
      (demo_world None)
        \<lparr>database := \<lparr>migrations = Some [], applied = []\<rparr>,
         trace := bootstrap_events (Inr [\<lparr>Name = ''README.md'', IsDir = False\<rparr>]) (Inr [])\<rparr>)"
    by (simp add: create_tracker_def)
  have pg: "pgx_exec ?sys = postgres_exec (plain_sql {})" "pgx_query ?sys = postgres_query"
    "DB (demo_world None) \<noteq> None" "readdir ?sys migrationDir = Inr demo_listing"
    by (simp_all add: demo_sys_simps)
  have fresh: "migrations (database (demo_world None)) = None"
    by simp
  have names: "distinct (map Name demo_listing)"
    by (simp add: demo_listing_def)
  have valid: "\<forall>f\<in>set (sqlFiles demo_listing).
      \<exists>c. readfile ?sys (Join migrationDir f) = Inr c \<and>
        (\<forall>d. \<exists>d'. postgres_exec (plain_sql {}) c [] d = (None, d') \<and> migrations d' = migrations d)"
    by (simp add: sqlFiles_demo_listing demo_sys_simps demo_scripts plain_sql_def)
  from tracker_bootstrap [OF pg, THEN conjunct2, THEN mp, THEN mp, THEN mp, OF fresh names valid]
  obtain w' where "RunMigrations ?sys (demo_world None) = (None, w')"
    "migrations (database w') = Some (sqlFiles demo_listing)"
    by blast
  with first show ?thesis
    by (simp add: sqlFiles_demo_listing)
qed

section \<open>Force mode\<close>

text \<open>
  With \<^verbatim>\<open>-force\<close> the tool prints its warning and reads the operator's answer. On any
  answer but \<^verbatim>\<open>y\<close> or \<^verbatim>\<open>Y\<close> it prints that the migration is cancelled and returns:
  RunMigrations is not called and the database is as before. On \<^verbatim>\<open>y\<close> or \<^verbatim>\<open>Y\<close> it
  goes on exactly as without \<^verbatim>\<open>-force\<close>, with the ordinary RunMigrations.
\<close>

lemma force_mode_denied:
  "response \<noteq> ''y'' \<Longrightarrow> response \<noteq> ''Y'' \<Longrightarrow>
     runMigrationsUp sys response True w =
       (Returned,
        w\<lparr>trace := trace w @
           [Print ''Running migrations...'',
            Print (warning_sign @ ''  FORCE MODE: This will run all migrations regardless of history!''),
            Print ''Are you sure? This could cause data loss. (y/N): '',
            Scanln response,
            Print ''Migration cancelled.'']\<rparr>)"
  by (simp add: runMigrationsUp_def println_all_eq emit_def)

lemma force_mode_confirmed:
  "response = ''y'' \<or> response = ''Y'' \<Longrightarrow>
     runMigrationsUp sys response True w =
       (case RunMigrations sys
               (w\<lparr>trace := trace w @
                  [Print ''Running migrations...'',
                   Print (warning_sign @ ''  FORCE MODE: This will run all migrations regardless of history!''),
                   Print ''Are you sure? This could cause data loss. (y/N): '',
                   Scanln response]\<rparr>) of
          (Some err, w3) \<Rightarrow> (Fatal, emit (Log (''Failed to run migrations: '' @ err)) w3)
        | (None, w3) \<Rightarrow>
            (Returned, emit (Print (check_mark @ '' Migrations completed successfully!'')) w3))"
  by (auto simp: runMigrationsUp_def println_all_eq emit_def)

text \<open>
  Claim C1, at the input where the code departs from it. All three change-sets of the
  example are recorded in the tracker; the tool is run with \<^verbatim>\<open>-up -force\<close> and the
  operator answers \<^verbatim>\<open>y\<close>. The tool prints that it will run all migrations regardless of
  history, and then calls the ordinary RunMigrations: every change-set is reported as
  already executed and skipped, no file is read, no script is executed, and the
  database is as before.
\<close>

theorem force_mode_skips_applied:
  "runMigrationsUp (demo_sys (plain_sql {}) ''CREATE TABLE b ();'') ''y'' True
       (demo_world (Some [''001_a.sql'', ''002_b.sql'', ''003_c.sql''])) =
     (Returned,
      (demo_world (Some [''001_a.sql'', ''002_b.sql'', ''003_c.sql'']))
        \<lparr>trace :=
           [Print ''Running migrations...'',
            Print (warning_sign @ ''  FORCE MODE: This will run all migrations regardless of history!''),
            Print ''Are you sure? This could cause data loss. (y/N): '',
            Scanln ''y''] @
           bootstrap_events (Inr demo_listing)
             (Inr [Inr ''001_a.sql'', Inr ''002_b.sql'', Inr ''003_c.sql'']) @
           skip_events ''001_a.sql'' @ skip_events ''002_b.sql'' @ skip_events ''003_c.sql'' @
           [Print (check_mark @ '' Migrations completed successfully!'')]\<rparr>)"
  by (simp add: runMigrationsUp_def println_all_eq RunMigrations_def Exec_def Query_def emit_def
        demo_sys_simps sqlFiles_demo_listing create_tracker_def demo_world_def
        bootstrap_events_def skip_events_def)

section \<open>Two error policies at startup\<close>

text \<open>
  Claim C6. Let the server's \<^verbatim>\<open>main\<close> have set up the pool, let \<open>(r2, w2)\<close> be the
  result of its migration step (RunMigrations when \<^verbatim>\<open>AUTO_MIGRATE\<close> is enabled) and
  \<open>(r3, w3)\<close> the result of SeedDatabase after it. An error of the migration step ends
  the process through \<^verbatim>\<open>log.Fatalf\<close>, before any seeding. An error of SeedDatabase is
  logged as a warning and startup goes on to the HTTP layer, as it does after a
  successful seeding. Within SeedDatabase a failed call is the last effect, so the
  remaining seed files are not touched, and a failed seed script yields the error
  "failed to execute seed file \<open>f\<close>" with the cause.
\<close>

theorem seed_failure_warns_migration_failure_exits:
  assumes init: "InitPostgres sys
        (case loadEnv of
           Some err \<Rightarrow> emit (Log (''Warning: Failed to load .env file: '' @ err)) w
         | None \<Rightarrow> w) = (None, w1)"
    and migrated: "(if ToLower (getenv sys ''AUTO_MIGRATE'') \<in> {''true'', ''1'', ''yes''}
         then RunMigrations sys (emit (Log ''Auto-migration enabled, running migrations...'') w1)
         else (None, emit (Log auto_migration_disabled) w1)) = (r2, w2)"
    and seeded: "SeedDatabase sys w2 = (r3, w3)"
  shows "(\<forall>err. r2 = Some err \<longrightarrow>
            main sys loadEnv w = (Fatal, emit (Log (''Failed to run migrations: '' @ err)) w2)) \<and>
         (\<forall>err. r2 = None \<longrightarrow> r3 = Some err \<longrightarrow>
            main sys loadEnv w =
              (Serving, emit (Log (''Warning: Failed to seed database: '' @ err)) w3)) \<and>
         (r2 = None \<longrightarrow> r3 = None \<longrightarrow> main sys loadEnv w = (Serving, w3)) \<and>
         (\<forall>pre e post. effects_since w2 w3 = pre @ e # post \<longrightarrow> failed e \<longrightarrow>
            post = [] \<and> r3 \<noteq> None) \<and>
         (\<forall>pre f c sql args err post.
            effects_since w2 w3 =
              pre @ ReadFile (Join seedDir f) (Inr c) # DBExec sql args (Some err) # post \<longrightarrow>
            r3 = Some (''failed to execute seed file '' @ f @ '': '' @ err))"
proof (intro conjI allI impI)
  fix err
  assume "r2 = Some err"
  with init migrated show "main sys loadEnv w = (Fatal, emit (Log (''Failed to run migrations: '' @ err)) w2)"
    by (simp add: main_def Let_def)
next
  fix err
  assume "r2 = None" "r3 = Some err"
  with init migrated seeded
  show "main sys loadEnv w = (Serving, emit (Log (''Warning: Failed to seed database: '' @ err)) w3)"
    by (simp add: main_def Let_def)
next
  assume "r2 = None" "r3 = None"
  with init migrated seeded show "main sys loadEnv w = (Serving, w3)"
    by (simp add: main_def Let_def)
next
  fix pre e post
  assume "effects_since w2 w3 = pre @ e # post" "failed e"
  from SeedDatabase_fail_fast [OF seeded this] show "post = []" "r3 \<noteq> None"
    by simp_all
next
  fix pre f c sql args err post
  assume "effects_since w2 w3 =
              pre @ ReadFile (Join seedDir f) (Inr c) # DBExec sql args (Some err) # post"
  from SeedDatabase_names_failure [OF seeded this]
  show "r3 = Some (''failed to execute seed file '' @ f @ '': '' @ err)" .
qed

theorem seed_failure_warns_migration_failure_exits_witness:
  "main (demo_sys (plain_sql {''INSERT INTO a DEFAULT VALUES;''}) ''CREATE TABLE b ();'') None
       \<lparr>DB = None, database = \<lparr>migrations = None, applied = []\<rparr>, trace = []\<rparr> =
     (Serving,
      emit (Log (''Warning: Failed to seed database: '' @
                 ''failed to execute seed file users.sql: syntax error''))
        (snd (SeedDatabase (demo_sys (plain_sql {''INSERT INTO a DEFAULT VALUES;''}) ''CREATE TABLE b ();'')
           (snd (RunMigrations (demo_sys (plain_sql {''INSERT INTO a DEFAULT VALUES;''}) ''CREATE TABLE b ();'')
              (emit (Log ''Auto-migration enabled, running migrations...'')
                 (snd (InitPostgres (demo_sys (plain_sql {''INSERT INTO a DEFAULT VALUES;''}) ''CREATE TABLE b ();'')
                    \<lparr>DB = None, database = \<lparr>migrations = None, applied = []\<rparr>, trace = []\<rparr>)))))))) \<and>
   main (demo_sys (plain_sql {''CREATE TABEL b ();''}) ''CREATE TABEL b ();'') None
       \<lparr>DB = None, database = \<lparr>migrations = None, applied = []\<rparr>, trace = []\<rparr> =
     (Fatal,
      emit (Log (''Failed to run migrations: '' @
                 ''failed to execute migration 002_b.sql: syntax error''))
        (snd (RunMigrations (demo_sys (plain_sql {''CREATE TABEL b ();''}) ''CREATE TABEL b ();'')
           (emit (Log ''Auto-migration enabled, running migrations...'')
              (snd (InitPostgres (demo_sys (plain_sql {''CREATE TABEL b ();''}) ''CREATE TABEL b ();'')
                 \<lparr>DB = None, database = \<lparr>migrations = None, applied = []\<rparr>, trace = []\<rparr>))))))"
proof -
  let ?w = "\<lparr>DB = None, database = \<lparr>migrations = None, applied = []\<rparr>, trace = []\<rparr>"
  let ?s = "demo_sys (plain_sql {''INSERT INTO a DEFAULT VALUES;''}) ''CREATE TABLE b ();''"
  let ?t = "demo_sys (plain_sql {''CREATE TABEL b ();''}) ''CREATE TABEL b ();''"
  have seeds: "sqlFiles [\<lparr>Name = ''users.sql'', IsDir = False\<rparr>] = [''users.sql'']"
    by (simp add: sqlFiles_def HasSuffix_def)
  have lower: "ToLower ''True'' = ''true''"
    by code_simp
  have auto: "ToLower (getenv (demo_sys script b) ''AUTO_MIGRATE'') \<in> {''true'', ''1'', ''yes''}" for script b
    by (simp add: demo_sys_def lower)
  have seed_text: "postgres_exec script ''INSERT INTO a DEFAULT VALUES;'' [] d =
      (case script ''INSERT INTO a DEFAULT VALUES;'' d of
         Inl err \<Rightarrow> (Some err, d) | Inr d' \<Rightarrow> (None, d'))" for script d
    by (simp add: postgres_exec_def createMigrationsTable_def insertMigration_def)
  have seed_sys: "readdir (demo_sys script b) seedDir = Inr [\<lparr>Name = ''users.sql'', IsDir = False\<rparr>]"
    "readfile (demo_sys script b) (Join seedDir ''users.sql'') = Inr ''INSERT INTO a DEFAULT VALUES;''"
    for script b
    by (simp_all add: demo_sys_def seedDir_def Join_def)
  have demo_init: "InitPostgres (demo_sys script b) w =
      (None, w\<lparr>DB := Some (Pool ''postgres://localhost:5432/userdb''),
               trace := trace w @
                 [Log ''Connecting to PostgreSQL with DSN: postgres://localhost:5432/userdb'',
                  PoolNew 10 ''postgres://localhost:5432/userdb''
                    (Inr (Pool ''postgres://localhost:5432/userdb''))]\<rparr>)" for script b and w :: "database world"
    by (simp add: InitPostgres_def demo_sys_def Let_def emit_def)
  let ?s1 = "snd (InitPostgres ?s ?w)"
  let ?s2 = "snd (RunMigrations ?s (emit (Log ''Auto-migration enabled, running migrations...'') ?s1))"
  let ?s3 = "snd (SeedDatabase ?s ?s2)"
  have s_init: "InitPostgres ?s (case None of
        Some err \<Rightarrow> emit (Log (''Warning: Failed to load .env file: '' @ err)) ?w
      | None \<Rightarrow> ?w) = (None, ?s1)"
    by (simp add: demo_init)
  have s_migrated: "(if ToLower (getenv ?s ''AUTO_MIGRATE'') \<in> {''true'', ''1'', ''yes''}
         then RunMigrations ?s (emit (Log ''Auto-migration enabled, running migrations...'') ?s1)
         else (None, emit (Log auto_migration_disabled) ?s1)) = (None, ?s2)"
    unfolding if_P [OF auto]
    by (simp add: demo_init RunMigrations_def Exec_def Query_def emit_def demo_sys_simps
          demo_scripts sqlFiles_demo_listing postgres_exec_insert plain_sql_def create_tracker_def)
  have s_seeded: "SeedDatabase ?s ?s2 = (Some ''failed to execute seed file users.sql: syntax error'', ?s3)"
    by (simp add: demo_init RunMigrations_def Exec_def Query_def emit_def demo_sys_simps
          demo_scripts sqlFiles_demo_listing postgres_exec_insert plain_sql_def create_tracker_def
          SeedDatabase_def seed_sys seeds seed_text)
  let ?t1 = "snd (InitPostgres ?t ?w)"
  let ?t2 = "snd (RunMigrations ?t (emit (Log ''Auto-migration enabled, running migrations...'') ?t1))"
  have t_init: "InitPostgres ?t (case None of
        Some err \<Rightarrow> emit (Log (''Warning: Failed to load .env file: '' @ err)) ?w
      | None \<Rightarrow> ?w) = (None, ?t1)"
    by (simp add: demo_init)
  have t_migrated: "(if ToLower (getenv ?t ''AUTO_MIGRATE'') \<in> {''true'', ''1'', ''yes''}
         then RunMigrations ?t (emit (Log ''Auto-migration enabled, running migrations...'') ?t1)
         else (None, emit (Log auto_migration_disabled) ?t1)) =
       (Some ''failed to execute migration 002_b.sql: syntax error'', ?t2)"
    unfolding if_P [OF auto]
    by (simp add: demo_init RunMigrations_def Exec_def Query_def emit_def demo_sys_simps
          demo_scripts sqlFiles_demo_listing postgres_exec_insert plain_sql_def create_tracker_def)
  have t_seeded: "SeedDatabase ?t ?t2 = (fst (SeedDatabase ?t ?t2), snd (SeedDatabase ?t ?t2))"
    by simp
  from seed_failure_warns_migration_failure_exits [OF s_init s_migrated s_seeded]
    seed_failure_warns_migration_failure_exits [OF t_init t_migrated t_seeded]
  show ?thesis
    by simp
qed

end
